theory Spec2Isabelle
  imports Complex_Main
begin

section \<open>JavaScript values and strings\<close>

text \<open>
  The values that occur in the fields of the objects returned by the entitlement check:
  numbers (all of them integers here), booleans, strings, \<open>undefined\<close> (also standing for
  an absent field) and \<open>NaN\<close>.
\<close>

datatype js_value = JNum int | JBool bool | JStr string | JUndefined | JNaN

text \<open>
  \<open>String.prototype.toUpperCase\<close> on ASCII text, as applied to plan identifiers: the 26
  letters are mapped, every other character is kept.
\<close>

definition lower_letters :: string where
  "lower_letters = ''abcdefghijklmnopqrstuvwxyz''"

definition upper_letters :: string where
  "upper_letters = ''ABCDEFGHIJKLMNOPQRSTUVWXYZ''"

definition upper_char :: "char \<Rightarrow> char" where
  "upper_char c = (case map_of (zip lower_letters upper_letters) c of Some u \<Rightarrow> u | None \<Rightarrow> c)"

definition toUpperCase :: "string \<Rightarrow> string" where
  "toUpperCase s = map upper_char s"

section \<open>Time\<close>

text \<open>
  A point in time in UTC calendar form: \<open>ym\<close> counts the calendar months since the epoch
  and \<open>in_month\<close> the milliseconds since the start of that month.
  \<open>new Date(new Date().toISOString().slice(0, 7) + '-01')\<close> is the start of the current
  month, and Prisma's \<open>gte\<close> filter compares two points in time.
\<close>

record datetime =
  ym :: nat
  in_month :: nat

definition month_start :: "datetime \<Rightarrow> datetime" where
  "month_start now = \<lparr>ym = ym now, in_month = 0\<rparr>"

definition gte :: "datetime \<Rightarrow> datetime \<Rightarrow> bool" where
  "gte a b = (ym b < ym a \<or> (ym a = ym b \<and> in_month b \<le> in_month a))"

section \<open>The relational store\<close>

type_synonym ident = string

datatype sub_status = SUB_PENDING | SUB_ACTIVE | SUB_CANCELLED | SUB_EXPIRED

record subscription =
  planId :: string
  sub_status :: sub_status
  startDate :: datetime
  endDate :: datetime
  cancelledAt :: "datetime option"

record business =
  business_id :: ident
  business_name :: string
  business_type :: string
  owner_email :: string
  subscription :: "subscription option"

record customer =
  customer_id :: ident
  customer_businessId :: ident

datatype review_status = PENDING | AI_GENERATED | APPROVED | PUBLISHED | REJECTED

record review =
  review_id :: ident
  review_businessId :: ident
  review_customerId :: ident
  rating :: int
  feedback :: string
  formData :: string
  generatedReview :: "string option"
  review_status :: review_status
  review_createdAt :: datetime

datatype gen_status = GEN_PENDING | GEN_APPROVED | GEN_REJECTED | GEN_REGENERATED

record ai_generation =
  gen_reviewId :: ident
  originalText :: string
  enhancedText :: string
  confidence :: rat
  sentiment :: string
  gen_keywords :: "string list"
  improvements :: "string list"
  gen_status :: gen_status
  rejectionNote :: "string option"
  gen_createdAt :: datetime

record ai_usage =
  usage_businessId :: ident
  operation :: string
  usage_success :: bool
  errorMessage :: "string option"

record qr_code =
  qr_id :: ident
  qr_businessId :: ident
  scansCount :: nat

record qr_scan =
  scan_qrCodeId :: ident
  ipAddress :: "string option"
  userAgent :: "string option"
  location :: "string option"

text \<open>
  Every statement sent to the datastore can fail. \<open>failing\<close> lists the statements that
  raise a datastore error in the request at hand; the tables are lists of rows, and the
  usage ledger (unique on business, month and feature type) is a map from its key to the
  stored count.
\<close>

datatype db_op =
    Business_findUnique | Business_findFirst | AIGen_count | Review_count
  | Usage_upsert | Review_findFirst | AIGen_create | AIGen_update | Review_update
  | Review_create | Customer_findFirst | AIUsage_create | QRScan_create | QRCode_update

type_synonym ledger_key = "ident \<times> nat \<times> string"

record datastore =
  businesses :: "business list"
  customers :: "customer list"
  reviews :: "review list"
  aiGenerations :: "ai_generation list"
  subscriptionUsage :: "ledger_key \<rightharpoonup> nat"
  aiUsageAnalytics :: "ai_usage list"
  qrCodes :: "qr_code list"
  qrScans :: "qr_scan list"
  failing :: "db_op list"

definition fails :: "datastore \<Rightarrow> db_op \<Rightarrow> bool" where
  "fails db operation_name = (operation_name \<in> set (failing db))"

definition db_error :: string where
  "db_error = ''datastore error''"

text \<open>\<open>prisma.business.findUnique({ where: { id }, include: { subscription: true } })\<close>\<close>

definition business_findUnique :: "datastore \<Rightarrow> ident \<Rightarrow> string + business option" where
  "business_findUnique db businessId =
     (if fails db Business_findUnique then Inl db_error
      else Inr (find (\<lambda>b. business_id b = businessId) (businesses db)))"

text \<open>The relation filter \<open>review: { businessId }\<close> of a generation row.\<close>

definition gen_of_business :: "datastore \<Rightarrow> ident \<Rightarrow> ai_generation \<Rightarrow> bool" where
  "gen_of_business db businessId g =
     list_ex (\<lambda>r. review_id r = gen_reviewId g \<and> review_businessId r = businessId) (reviews db)"

definition aIReviewGeneration_count :: "datastore \<Rightarrow> ident \<Rightarrow> datetime \<Rightarrow> string + nat" where
  "aIReviewGeneration_count db businessId since =
     (if fails db AIGen_count then Inl db_error
      else Inr (length (filter (\<lambda>g. gen_of_business db businessId g \<and> gte (gen_createdAt g) since)
                         (aiGenerations db))))"

definition review_count :: "datastore \<Rightarrow> ident \<Rightarrow> datetime \<Rightarrow> string + nat" where
  "review_count db businessId since =
     (if fails db Review_count then Inl db_error
      else Inr (length (filter (\<lambda>r. review_businessId r = businessId \<and> gte (review_createdAt r) since)
                         (reviews db))))"

section \<open>Plan catalog (subscriptionService.js)\<close>

datatype feature_limit = Num int | Flag bool

record plan =
  plan_id :: string
  plan_name :: string
  priceINR :: int
  features :: "(string \<times> feature_limit) list"

definition FREE :: plan where
  "FREE = \<lparr>plan_id = ''free'', plan_name = ''Free'', priceINR = 0,
     features = [
       (''aiEnhancementsPerMonth'', Num 5),
       (''reviewsPerMonth'', Num 10),
       (''customFormFields'', Num 3),
       (''basicAnalytics'', Flag True),
       (''emailSupport'', Flag False),
       (''customBranding'', Flag False),
       (''advancedAnalytics'', Flag False),
       (''prioritySupport'', Flag False),
       (''apiAccess'', Flag False),
       (''whiteLabel'', Flag False),
       (''multipleLocations'', Num 1)]\<rparr>"

definition PREMIUM :: plan where
  "PREMIUM = \<lparr>plan_id = ''premium'', plan_name = ''Premium'', priceINR = 4149,
     features = [
       (''aiEnhancementsPerMonth'', Num (- 1)),
       (''reviewsPerMonth'', Num (- 1)),
       (''customFormFields'', Num (- 1)),
       (''basicAnalytics'', Flag True),
       (''emailSupport'', Flag True),
       (''customBranding'', Flag True),
       (''advancedAnalytics'', Flag True),
       (''prioritySupport'', Flag True),
       (''apiAccess'', Flag True),
       (''whiteLabel'', Flag True),
       (''multipleLocations'', Num (- 1))]\<rparr>"

definition plans :: "(string \<times> plan) list" where
  "plans = [(''FREE'', FREE), (''PREMIUM'', PREMIUM)]"

text \<open>\<open>this.plans[planId.toUpperCase()] || this.plans.FREE\<close>\<close>

definition getPlan :: "string \<Rightarrow> plan" where
  "getPlan pid = (case map_of plans (toUpperCase pid) of Some p \<Rightarrow> p | None \<Rightarrow> FREE)"

section \<open>Entitlement check (subscriptionService.js)\<close>

record usage_check =
  allowed :: bool
  limit :: js_value
  used :: js_value
  remaining :: js_value
  message :: js_value

text \<open>
  The \<open>switch (feature)\<close> inside the \<open>try\<close> of \<open>checkFeatureLimit\<close>: two features are
  counted from the rows created since the start of the month, every other feature counts
  as unused, and the \<open>catch\<close> turns a failed count into 0.
\<close>

definition current_usage :: "datastore \<Rightarrow> string \<Rightarrow> ident \<Rightarrow> datetime \<Rightarrow> nat" where
  "current_usage db feature businessId now =
     (if feature = ''aiEnhancementsPerMonth'' then
        (case aIReviewGeneration_count db businessId (month_start now) of
           Inr n \<Rightarrow> n | Inl e \<Rightarrow> 0)
      else if feature = ''reviewsPerMonth'' then
        (case review_count db businessId (month_start now) of
           Inr n \<Rightarrow> n | Inl e \<Rightarrow> 0)
      else 0)"

text \<open>
  \<open>checkFeatureLimit(planId, feature, businessId)\<close>. A key that the feature map does not
  have reads as \<open>undefined\<close>: it is neither \<open>-1\<close> nor a boolean, \<open>used < undefined\<close> is
  false and \<open>Math.max(0, undefined - used)\<close> is \<open>NaN\<close>.
\<close>

definition checkFeatureLimit :: "datastore \<Rightarrow> string \<Rightarrow> string \<Rightarrow> ident \<Rightarrow> datetime \<Rightarrow> usage_check" where
  "checkFeatureLimit db pid feature businessId now =
     (case map_of (features (getPlan pid)) feature of
        Some (Num n) \<Rightarrow>
          if n = - 1 then
            \<lparr>allowed = True, limit = JStr ''unlimited'', used = JNum 0,
             remaining = JUndefined, message = JUndefined\<rparr>
          else
            (let u = int (current_usage db feature businessId now)
             in \<lparr>allowed = (u < n), limit = JNum n, used = JNum u,
                 remaining = JNum (max 0 (n - u)), message = JUndefined\<rparr>)
      | Some (Flag b) \<Rightarrow>
          \<lparr>allowed = b, limit = JBool b, used = JNum 0,
           remaining = JUndefined, message = JUndefined\<rparr>
      | None \<Rightarrow>
          (let u = int (current_usage db feature businessId now)
           in \<lparr>allowed = False, limit = JUndefined, used = JNum u,
               remaining = JNaN, message = JUndefined\<rparr>))"

definition unable_to_verify :: usage_check where
  "unable_to_verify =
     \<lparr>allowed = False, limit = JUndefined, used = JUndefined, remaining = JUndefined,
      message = JStr ''Unable to verify subscription''\<rparr>"

text \<open>
  \<open>checkUsageLimit(businessId, feature)\<close>: the \<open>catch\<close> covers the business lookup; a
  missing business and a business without subscription both take the FREE branch.
\<close>

definition checkUsageLimit :: "datastore \<Rightarrow> ident \<Rightarrow> string \<Rightarrow> datetime \<Rightarrow> usage_check" where
  "checkUsageLimit db businessId feature now =
     (case business_findUnique db businessId of
        Inl e \<Rightarrow> unable_to_verify
      | Inr None \<Rightarrow> checkFeatureLimit db ''FREE'' feature businessId now
      | Inr (Some b) \<Rightarrow>
          (case subscription b of
             None \<Rightarrow> checkFeatureLimit db ''FREE'' feature businessId now
           | Some s \<Rightarrow> checkFeatureLimit db (planId s) feature businessId now))"

section \<open>HTTP plumbing\<close>

record response =
  status_code :: nat
  resp_message :: string
  resp_errors :: "string list"
  resp_details :: "(js_value \<times> js_value \<times> string \<times> string) option"
  resp_generation :: "ai_generation option"
  resp_review :: "review option"

definition reply :: "nat \<Rightarrow> string \<Rightarrow> response" where
  "reply code msg =
     \<lparr>status_code = code, resp_message = msg, resp_errors = [], resp_details = None,
      resp_generation = None, resp_review = None\<rparr>"

text \<open>
  The fields of a request that the handlers below read. \<open>req_businessId\<close> is
  \<open>req.businessId\<close>, which only the subscription middleware sets.
\<close>

record request =
  body_businessId :: "ident option"
  params_businessId :: "ident option"
  user_email :: "string option"
  body_reviewId :: "ident option"
  params_reviewId :: "ident option"
  body_rejectionNote :: "string option"
  req_businessId :: "ident option"
  req_subscriptionUsage :: "usage_check option"

text \<open>JavaScript truthiness of an optional string: absent and empty are falsy.\<close>

definition truthy :: "string option \<Rightarrow> bool" where
  "truthy v = (case v of None \<Rightarrow> False | Some s \<Rightarrow> s \<noteq> [])"

definition or_else :: "string option \<Rightarrow> string option \<Rightarrow> string option" where
  "or_else a b = (if truthy a then a else b)"

text \<open>\<open>prisma.business.findFirst({ where: { user: { email } } })\<close>\<close>

definition business_findFirst :: "datastore \<Rightarrow> string \<Rightarrow> string + business option" where
  "business_findFirst db email =
     (if fails db Business_findFirst then Inl db_error
      else Inr (find (\<lambda>b. owner_email b = email) (businesses db)))"

section \<open>Subscription middleware (subscriptionAuth.js)\<close>

record analytics =
  currentPlan :: plan
  aiEnhancements_used :: nat
  reviews_used :: nat

text \<open>
  \<open>getSubscriptionAnalytics(businessId)\<close> rethrows every error; only the part of its
  result that the middleware reads is kept.
\<close>

definition getSubscriptionAnalytics :: "datastore \<Rightarrow> ident \<Rightarrow> datetime \<Rightarrow> string + analytics" where
  "getSubscriptionAnalytics db businessId now =
     (case business_findUnique db businessId of
        Inl e \<Rightarrow> Inl e
      | Inr None \<Rightarrow> Inl ''Business not found''
      | Inr (Some b) \<Rightarrow>
          (let p = (case subscription b of Some s \<Rightarrow> getPlan (planId s) | None \<Rightarrow> FREE)
           in case aIReviewGeneration_count db businessId (month_start now) of
                Inl e \<Rightarrow> Inl e
              | Inr a \<Rightarrow>
                  (case review_count db businessId (month_start now) of
                     Inl e \<Rightarrow> Inl e
                   | Inr r \<Rightarrow> Inr \<lparr>currentPlan = p, aiEnhancements_used = a, reviews_used = r\<rparr>)))"

datatype gate = Respond response | Next request

definition upgrade_message :: "plan \<Rightarrow> string" where
  "upgrade_message p =
     (if plan_id p = ''free'' then ''Upgrade to Pro or Ultimate plan to continue using this feature.''
      else if plan_id p = ''pro'' then ''Upgrade to Ultimate plan for unlimited access.''
      else [])"

text \<open>
  \<open>checkSubscriptionLimit(feature)\<close>: resolve the business, run the entitlement check,
  answer 403 when it denies and hand the request on otherwise.
\<close>

definition resolve_businessId :: "datastore \<Rightarrow> request \<Rightarrow> string + ident option" where
  "resolve_businessId db req =
     (let direct = or_else (body_businessId req) (params_businessId req)
      in if \<not> truthy direct \<and> truthy (user_email req) then
           (case user_email req of
              None \<Rightarrow> Inr direct
            | Some email \<Rightarrow>
                (case business_findFirst db email of
                   Inl e \<Rightarrow> Inl e
                 | Inr None \<Rightarrow> Inr None
                 | Inr (Some b) \<Rightarrow> Inr (Some (business_id b))))
         else Inr direct)"

definition checkSubscriptionLimit :: "string \<Rightarrow> datastore \<Rightarrow> request \<Rightarrow> datetime \<Rightarrow> gate" where
  "checkSubscriptionLimit feature db req now =
     (case resolve_businessId db req of
        Inl e \<Rightarrow> Respond (reply 500 ''Failed to verify subscription limits'')
      | Inr found \<Rightarrow>
          (if \<not> truthy found then Respond (reply 400 ''Business not found'')
           else case found of
             None \<Rightarrow> Respond (reply 400 ''Business not found'')
           | Some businessId \<Rightarrow>
               (let usageCheck = checkUsageLimit db businessId feature now
                in if \<not> allowed usageCheck then
                     (case getSubscriptionAnalytics db businessId now of
                        Inl e \<Rightarrow> Respond (reply 500 ''Failed to verify subscription limits'')
                      | Inr a \<Rightarrow>
                          Respond ((reply 403 (''Usage limit reached for '' @ feature))
                            \<lparr>resp_details := Some (used usageCheck, limit usageCheck,
                                 plan_name (currentPlan a), upgrade_message (currentPlan a))\<rparr>))
                   else Next (req\<lparr>req_businessId := Some businessId,
                                  req_subscriptionUsage := Some usageCheck\<rparr>))))"

text \<open>
  \<open>recordUsage(businessId, featureType, metadata)\<close>: one upsert on the ledger key of the
  current month, which creates the row with count 1 or increments it; the \<open>catch\<close> logs a
  failed upsert and returns normally. The month of the key is taken from the server clock,
  here in UTC; \<open>lastUsedAt\<close> and the opaque metadata are not kept.
\<close>

definition recordUsage :: "datastore \<Rightarrow> ident \<Rightarrow> string \<Rightarrow> datetime \<Rightarrow> datastore" where
  "recordUsage db businessId featureType now =
     (if fails db Usage_upsert then db
      else db\<lparr>subscriptionUsage := (subscriptionUsage db)
                ((businessId, ym now, featureType) \<mapsto>
                   (case subscriptionUsage db (businessId, ym now, featureType) of
                      None \<Rightarrow> 1 | Some c \<Rightarrow> c + 1))\<rparr>)"

definition ledger_count :: "datastore \<Rightarrow> ledger_key \<Rightarrow> nat" where
  "ledger_count db k = (case subscriptionUsage db k of None \<Rightarrow> 0 | Some c \<Rightarrow> c)"

text \<open>
  The spec's reading of \<open>used\<close>, for comparison: the count that the usage ledger holds for
  the business, the current month and the feature key.
\<close>

definition spec_month_usage :: "datastore \<Rightarrow> ident \<Rightarrow> string \<Rightarrow> datetime \<Rightarrow> nat" where
  "spec_month_usage db businessId feature now = ledger_count db (businessId, ym now, feature)"

section \<open>AI enhancement adapter (aiService.js)\<close>

text \<open>
  JavaScript numbers are IEEE 754 doubles. \<open>double_of q\<close> is the double nearest to the
  rational \<open>q\<close>, ties to the even significand: \<open>significand\<close> scales \<open>q\<close> by powers of two
  into the range from \<open>2^52\<close> up to \<open>2^53\<close>, and the scaled value is rounded to an integer.
  Overflow and subnormal numbers are not modelled; the numbers added below lie between
  0.1 and 1. A decimal literal of the source is the double of its value, and \<open>+\<close> is
  \<open>fl_add\<close>.
\<close>

definition round_half_even :: "rat \<Rightarrow> int" where
  "round_half_even m =
     (let f = \<lfloor>m\<rfloor>; r = m - of_int f
      in if r < 1 / 2 then f else if 1 / 2 < r then f + 1 else if even f then f else f + 1)"

fun significand :: "nat \<Rightarrow> rat \<Rightarrow> int \<Rightarrow> rat \<times> int" where
  "significand 0 q k = (q, k)"
| "significand (Suc n) q k =
     (if q < 2 ^ 52 then significand n (2 * q) (k + 1)
      else if 2 ^ 53 \<le> q then significand n (q / 2) (k - 1)
      else (q, k))"

definition double_of :: "rat \<Rightarrow> rat" where
  "double_of q =
     (if q = 0 then 0
      else case significand 2200 \<bar>q\<bar> 0 of
        (m, k) \<Rightarrow>
          sgn q * (if 0 \<le> k then of_int (round_half_even m) / 2 ^ nat k
                   else of_int (round_half_even m) * 2 ^ nat (- k)))"

definition fl_add :: "rat \<Rightarrow> rat \<Rightarrow> rat" where
  "fl_add a b = double_of (a + b)"

text \<open>\<open>s.split(' ').length\<close>: one more than the number of spaces.\<close>

definition split_length :: "string \<Rightarrow> nat" where
  "split_length s = Suc (length (filter (\<lambda>c. c = CHR '' '') s))"

text \<open>
  A text is the list of its UTF-16 code units, each below U+0100 (the characters of
  type \<open>char\<close>, read by their code); texts with other code units are outside the model.
  For such a code unit \<open>c\<close>, \<open>c.toUpperCase()\<close> differs from \<open>c\<close> exactly for the letters a
  to z, the micro sign U+00B5, the sharp s U+00DF, U+00E0 to U+00F6 and U+00F8 to U+00FF.
\<close>

definition changed_by_toUpperCase :: "char \<Rightarrow> bool" where
  "changed_by_toUpperCase c =
     (let n = (of_char c :: nat)
      in (97 \<le> n \<and> n \<le> 122) \<or> n = 181 \<or> n = 223 \<or> (224 \<le> n \<and> n \<le> 246)
         \<or> (248 \<le> n \<and> n \<le> 255))"

text \<open>
  \<open>enhanced.includes('.') && enhanced[0] === enhanced[0].toUpperCase()\<close>; the second
  operand is only evaluated on a text that holds a full stop, so on a non-empty one.
\<close>

definition capitalized_and_punctuated :: "string \<Rightarrow> bool" where
  "capitalized_and_punctuated enhanced =
     (CHR ''.'' \<in> set enhanced \<and>
      (case enhanced of [] \<Rightarrow> False | c # cs \<Rightarrow> \<not> changed_by_toUpperCase c))"

text \<open>\<open>calculateConfidence(original, enhanced)\<close>, in the doubles of the source.\<close>

definition calculateConfidence :: "string \<Rightarrow> string \<Rightarrow> rat" where
  "calculateConfidence original enhanced =
     (let originalWords = split_length original;
          enhancedWords = split_length enhanced;
          c0 = double_of (7 / 10);
          c1 = (if originalWords < enhancedWords \<and> enhancedWords \<le> originalWords * 2
                then fl_add c0 (double_of (1 / 10)) else c0);
          c2 = (if capitalized_and_punctuated enhanced
                then fl_add c1 (double_of (1 / 10)) else c1)
      in min c2 (double_of 1))"

text \<open>
  The claim's reading of the score, for comparison: the same additions, with the length
  bonus on the closed interval from once to twice the original length.
\<close>

definition spec_confidence :: "string \<Rightarrow> string \<Rightarrow> rat" where
  "spec_confidence original enhanced =
     (let c0 = double_of (7 / 10);
          c1 = (if split_length original \<le> split_length enhanced
                   \<and> split_length enhanced \<le> 2 * split_length original
                then fl_add c0 (double_of (1 / 10)) else c0);
          c2 = (if capitalized_and_punctuated enhanced
                then fl_add c1 (double_of (1 / 10)) else c1)
      in min c2 (double_of 1))"

record validation =
  isValid :: bool
  errors :: "string list"

record analysis =
  an_sentiment :: string
  an_keywords :: "string list"
  an_improvements :: "string list"

text \<open>
  What lies outside the repository's sources, given per request: the text validator of
  \<open>utils/textValidation\<close>, the reply of the generative model to the enhancement prompt
  (\<open>Inl\<close> a transport error, \<open>Inr\<close> the text of the response) and its reply to the analysis
  prompt (\<open>Inl\<close> when the call or the JSON parse fails).
\<close>

record ai_world =
  validateReviewText :: "string \<Rightarrow> validation"
  generateContent :: "string + string"
  analysis_reply :: "string + analysis"

record business_context =
  ctx_businessId :: ident
  ctx_businessName :: string
  ctx_businessType :: string

fun join :: "string \<Rightarrow> string list \<Rightarrow> string" where
  "join sep [] = []"
| "join sep [x] = x"
| "join sep (x # y # ys) = x @ sep @ join sep (y # ys)"

text \<open>\<open>analyzeReview\<close> never throws: its \<open>catch\<close> returns the neutral analysis.\<close>

definition analyzeReview :: "ai_world \<Rightarrow> analysis" where
  "analyzeReview w =
     (case analysis_reply w of
        Inr a \<Rightarrow> a
      | Inl e \<Rightarrow> \<lparr>an_sentiment = ''neutral'', an_keywords = [], an_improvements = []\<rparr>)"

text \<open>
  Writes. A statement fails when the request's \<open>failing\<close> list says so (a lost connection,
  a constraint of the schema); an update of a row that does not exist fails as well.
\<close>

definition aIReviewGeneration_create :: "datastore \<Rightarrow> ai_generation \<Rightarrow> string + datastore" where
  "aIReviewGeneration_create db g =
     (if fails db AIGen_create then Inl db_error
      else Inr (db\<lparr>aiGenerations := aiGenerations db @ [g]\<rparr>))"

fun update_first :: "('a \<Rightarrow> bool) \<Rightarrow> ('a \<Rightarrow> 'a) \<Rightarrow> 'a list \<Rightarrow> 'a list" where
  "update_first P f [] = []"
| "update_first P f (x # xs) = (if P x then f x # xs else x # update_first P f xs)"

definition record_not_found :: string where
  "record_not_found = ''Record to update not found.''"

definition aIReviewGeneration_update ::
  "datastore \<Rightarrow> ident \<Rightarrow> (ai_generation \<Rightarrow> ai_generation) \<Rightarrow> string + ai_generation \<times> datastore" where
  "aIReviewGeneration_update db reviewId f =
     (if fails db AIGen_update then Inl db_error
      else case find (\<lambda>g. gen_reviewId g = reviewId) (aiGenerations db) of
             None \<Rightarrow> Inl record_not_found
           | Some g \<Rightarrow>
               Inr (f g, db\<lparr>aiGenerations :=
                      update_first (\<lambda>g. gen_reviewId g = reviewId) f (aiGenerations db)\<rparr>))"

definition review_update :: "datastore \<Rightarrow> ident \<Rightarrow> (review \<Rightarrow> review) \<Rightarrow> string + datastore" where
  "review_update db reviewId f =
     (if fails db Review_update then Inl db_error
      else case find (\<lambda>r. review_id r = reviewId) (reviews db) of
             None \<Rightarrow> Inl record_not_found
           | Some r \<Rightarrow>
               Inr (db\<lparr>reviews := update_first (\<lambda>r. review_id r = reviewId) f (reviews db)\<rparr>))"

text \<open>
  \<open>this.recordUsage(data)\<close> of the AI service writes the analytics table, not the usage
  ledger, and swallows a failed write.
\<close>

definition aiService_recordUsage :: "datastore \<Rightarrow> ai_usage \<Rightarrow> datastore" where
  "aiService_recordUsage db u =
     (if fails db AIUsage_create then db
      else db\<lparr>aiUsageAnalytics := aiUsageAnalytics db @ [u]\<rparr>)"

text \<open>
  The \<open>try\<close> block of \<open>enhanceReview\<close>: \<open>Inl\<close> carries the message of whatever was thrown
  together with the store as the writes before the throw left it.
\<close>

definition enhance_try ::
  "ai_world \<Rightarrow> datastore \<Rightarrow> ident \<Rightarrow> string \<Rightarrow> datetime
     \<Rightarrow> (string \<times> datastore) + (ai_generation \<times> datastore)" where
  "enhance_try w db reviewId original now =
     (let textValidation = validateReviewText w original
      in if \<not> isValid textValidation then
           Inl (''Invalid review content: '' @ join '', '' (errors textValidation), db)
         else case generateContent w of
           Inl e \<Rightarrow> Inl (e, db)
         | Inr enhanced \<Rightarrow>
             (let a = analyzeReview w;
                  g = \<lparr>gen_reviewId = reviewId, originalText = original, enhancedText = enhanced,
                       confidence = calculateConfidence original enhanced,
                       sentiment = an_sentiment a, gen_keywords = an_keywords a,
                       improvements = an_improvements a, gen_status = GEN_PENDING,
                       rejectionNote = None, gen_createdAt = now\<rparr>
              in case aIReviewGeneration_create db g of
                   Inl e \<Rightarrow> Inl (e, db)
                 | Inr db1 \<Rightarrow>
                     (case review_update db1 reviewId
                             (\<lambda>r. r\<lparr>generatedReview := Some enhanced, review_status := AI_GENERATED\<rparr>) of
                        Inl e \<Rightarrow> Inl (e, db1)
                      | Inr db2 \<Rightarrow> Inr (g, db2))))"

text \<open>\<open>enhanceReview(reviewId, originalText, businessContext)\<close>\<close>

definition enhanceReview ::
  "ai_world \<Rightarrow> datastore \<Rightarrow> ident \<Rightarrow> string \<Rightarrow> business_context \<Rightarrow> datetime
     \<Rightarrow> (string + ai_generation) \<times> datastore" where
  "enhanceReview w db reviewId original ctx now =
     (case enhance_try w db reviewId original now of
        Inr (g, db2) \<Rightarrow>
          (Inr g, aiService_recordUsage db2
             \<lparr>usage_businessId = ctx_businessId ctx, operation = ''REVIEW_ENHANCEMENT'',
              usage_success = True, errorMessage = None\<rparr>)
      | Inl (e, db1) \<Rightarrow>
          (Inl (''Failed to enhance review: '' @ e), aiService_recordUsage db1
             \<lparr>usage_businessId = ctx_businessId ctx, operation = ''REVIEW_ENHANCEMENT'',
              usage_success = False, errorMessage = Some e\<rparr>))"

text \<open>\<open>rejectReview(reviewId, rejectionNote)\<close>; an absent note leaves the stored one.\<close>

definition rejectReview ::
  "datastore \<Rightarrow> ident \<Rightarrow> string option \<Rightarrow> (string + ai_generation) \<times> datastore" where
  "rejectReview db reviewId note =
     (case aIReviewGeneration_update db reviewId
             (\<lambda>g. g\<lparr>gen_status := GEN_REJECTED,
                     rejectionNote := (case note of None \<Rightarrow> rejectionNote g | Some n \<Rightarrow> Some n)\<rparr>) of
        Inl e \<Rightarrow> (Inl ''Failed to reject review'', db)
      | Inr (g, db1) \<Rightarrow>
          (case review_update db1 reviewId (\<lambda>r. r\<lparr>review_status := PENDING\<rparr>) of
             Inl e \<Rightarrow> (Inl ''Failed to reject review'', db1)
           | Inr db2 \<Rightarrow> (Inr g, db2)))"

section \<open>AI routes: enhance-review and reject-review\<close>

text \<open>
  \<open>prisma.review.findFirst\<close> with the ownership filter on the business's user and the
  includes of the handlers. A filter value of \<open>undefined\<close> does not constrain.
\<close>

definition owned_by :: "string option \<Rightarrow> business \<Rightarrow> bool" where
  "owned_by email b = (case email of None \<Rightarrow> True | Some e \<Rightarrow> owner_email b = e)"

definition review_findFirst ::
  "datastore \<Rightarrow> ident \<Rightarrow> string option
     \<Rightarrow> string + (review \<times> business \<times> ai_generation option) option" where
  "review_findFirst db reviewId email =
     (if fails db Review_findFirst then Inl db_error
      else Inr
        (case find (\<lambda>r. review_id r = reviewId \<and>
                       list_ex (\<lambda>b. business_id b = review_businessId r \<and> owned_by email b)
                         (businesses db)) (reviews db) of
           None \<Rightarrow> None
         | Some r \<Rightarrow>
             (case find (\<lambda>b. business_id b = review_businessId r \<and> owned_by email b)
                     (businesses db) of
                None \<Rightarrow> None
              | Some b \<Rightarrow>
                  Some (r, b, find (\<lambda>g. gen_reviewId g = reviewId) (aiGenerations db)))))"

definition validation_failed :: "string \<Rightarrow> response" where
  "validation_failed msg = (reply 400 ''Validation failed'')\<lparr>resp_errors := [msg]\<rparr>"

text \<open>\<open>review.aiGeneration && review.aiGeneration.status !== 'REJECTED'\<close>\<close>

definition already_enhanced :: "ai_generation option \<Rightarrow> bool" where
  "already_enhanced og = (case og of None \<Rightarrow> False | Some g \<Rightarrow> gen_status g \<noteq> GEN_REJECTED)"

text \<open>
  The handler of \<open>POST /enhance-review\<close>, which runs once the middleware has passed the
  request on. The optional \<open>businessContext\<close> of the body only reaches the prompt and the
  analytics row and is left out.
\<close>

definition enhance_review_handler ::
  "ai_world \<Rightarrow> datastore \<Rightarrow> request \<Rightarrow> datetime \<Rightarrow> response \<times> datastore" where
  "enhance_review_handler w db req now =
     (if \<not> truthy (body_reviewId req) then (validation_failed ''Review ID is required'', db)
      else case body_reviewId req of
        None \<Rightarrow> (validation_failed ''Review ID is required'', db)
      | Some reviewId \<Rightarrow>
          (case review_findFirst db reviewId (user_email req) of
             Inl e \<Rightarrow> (reply 500 ''Failed to enhance review'', db)
           | Inr None \<Rightarrow> (reply 404 ''Review not found or access denied'', db)
           | Inr (Some (r, b, og)) \<Rightarrow>
               if already_enhanced og then
                 ((reply 400 ''Review already has AI enhancement'')\<lparr>resp_generation := og\<rparr>, db)
               else
                 (case enhanceReview w db reviewId (feedback r)
                         \<lparr>ctx_businessId = review_businessId r, ctx_businessName = business_name b,
                          ctx_businessType = business_type b\<rparr> now of
                    (Inl e, db1) \<Rightarrow> (reply 500 ''Failed to enhance review'', db1)
                  | (Inr g, db1) \<Rightarrow>
                      ((reply 201 ''Review enhanced successfully'')\<lparr>resp_generation := Some g\<rparr>,
                       (case req_businessId req of
                          None \<Rightarrow> db1
                        | Some businessId \<Rightarrow>
                            if businessId = [] then db1
                            else recordUsage db1 businessId ''ai_enhancement'' now)))))"

text \<open>The whole route: \<open>checkSubscriptionLimit('ai_enhancement')\<close>, then the handler.\<close>

definition post_enhance_review ::
  "ai_world \<Rightarrow> datastore \<Rightarrow> request \<Rightarrow> datetime \<Rightarrow> response \<times> datastore" where
  "post_enhance_review w db req now =
     (case checkSubscriptionLimit ''ai_enhancement'' db req now of
        Respond r \<Rightarrow> (r, db)
      | Next req' \<Rightarrow> enhance_review_handler w db req' now)"

text \<open>\<open>POST /reject-review/:reviewId\<close>; the route parameter is never empty.\<close>

definition post_reject_review :: "datastore \<Rightarrow> request \<Rightarrow> response \<times> datastore" where
  "post_reject_review db req =
     (case params_reviewId req of
        None \<Rightarrow> (validation_failed ''Review ID is required'', db)
      | Some reviewId \<Rightarrow>
          (case review_findFirst db reviewId (user_email req) of
             Inl e \<Rightarrow> (reply 500 ''Failed to reject review'', db)
           | Inr None \<Rightarrow> (reply 404 ''Review not found or access denied'', db)
           | Inr (Some (r, b, og)) \<Rightarrow>
               (case og of
                  None \<Rightarrow> (reply 400 ''No AI generation found for this review'', db)
                | Some g0 \<Rightarrow>
                    (case rejectReview db reviewId (body_rejectionNote req) of
                       (Inl e, db1) \<Rightarrow> (reply 500 ''Failed to reject review'', db1)
                     | (Inr g, db1) \<Rightarrow>
                         ((reply 200 ''Review rejected successfully'')\<lparr>resp_generation := Some g\<rparr>,
                          db1)))))"

section \<open>QR scan tracking (qrCodeService.js)\<close>

record scan_data =
  sd_ipAddress :: "string option"
  sd_userAgent :: "string option"
  sd_location :: "string option"

text \<open>
  \<open>trackScan(qrCodeId, scanData)\<close>: two statements one after the other, the insert of
  the scan row and the increment of the counter, inside one \<open>try\<close>.
\<close>

definition trackScan :: "datastore \<Rightarrow> ident \<Rightarrow> scan_data \<Rightarrow> (string + unit) \<times> datastore" where
  "trackScan db qrCodeId scanData =
     (if fails db QRScan_create then (Inl ''Failed to track scan'', db)
      else
        (let db1 = db\<lparr>qrScans := qrScans db @
                      [\<lparr>scan_qrCodeId = qrCodeId, ipAddress = sd_ipAddress scanData,
                        userAgent = sd_userAgent scanData, location = sd_location scanData\<rparr>]\<rparr>
         in if fails db QRCode_update then (Inl ''Failed to track scan'', db1)
            else case find (\<lambda>q. qr_id q = qrCodeId) (qrCodes db1) of
              None \<Rightarrow> (Inl ''Failed to track scan'', db1)
            | Some q \<Rightarrow>
                (Inr (), db1\<lparr>qrCodes := update_first (\<lambda>q. qr_id q = qrCodeId)
                                 (\<lambda>q. q\<lparr>scansCount := scansCount q + 1\<rparr>) (qrCodes db1)\<rparr>)))"

definition scan_rows :: "datastore \<Rightarrow> ident \<Rightarrow> nat" where
  "scan_rows db qrCodeId = length (filter (\<lambda>s. scan_qrCodeId s = qrCodeId) (qrScans db))"

definition scans_counter :: "datastore \<Rightarrow> ident \<Rightarrow> nat option" where
  "scans_counter db qrCodeId = map_option scansCount (find (\<lambda>q. qr_id q = qrCodeId) (qrCodes db))"

text \<open>A run of calls for one code, each on the store the call before left.\<close>

fun trackScans :: "datastore \<Rightarrow> ident \<Rightarrow> scan_data list \<Rightarrow> datastore" where
  "trackScans db qrCodeId [] = db"
| "trackScans db qrCodeId (d # ds) = trackScans (snd (trackScan db qrCodeId d)) qrCodeId ds"

section \<open>Public review submission (routes/reviews.js)\<close>

text \<open>
  The \<open>rating\<close> of a request body is any JSON value. What the route does with it depends on
  two things only, its truthiness (\<open>!rating\<close>) and its text (\<open>parseInt\<close> first converts its
  argument to a string). A number is carried as the text JavaScript prints for it: 7 is
  \<open>7\<close>, 4.7 is \<open>4.7\<close>, 0.5 is \<open>0.5\<close> and 1e21 is \<open>1e+21\<close>. It is falsy when it is zero, that
  is when its text is \<open>0\<close>. Arrays and objects are outside the model.
\<close>

datatype js_rating = RUndefined | RNull | RBool bool | RNumber string | RString string

definition rating_truthy :: "js_rating \<Rightarrow> bool" where
  "rating_truthy r =
     (case r of
        RUndefined \<Rightarrow> False
      | RNull \<Rightarrow> False
      | RBool b \<Rightarrow> b
      | RNumber t \<Rightarrow> t \<noteq> ''0'' \<and> t \<noteq> ''NaN''
      | RString t \<Rightarrow> t \<noteq> [])"

definition rating_text :: "js_rating \<Rightarrow> string" where
  "rating_text r =
     (case r of
        RUndefined \<Rightarrow> ''undefined''
      | RNull \<Rightarrow> ''null''
      | RBool b \<Rightarrow> (if b then ''true'' else ''false'')
      | RNumber t \<Rightarrow> t
      | RString t \<Rightarrow> t)"

text \<open>
  \<open>parseInt(string)\<close> with no radix: leading white space is skipped, a sign is read, the
  prefix \<open>0x\<close> or \<open>0X\<close> selects radix 16, and the longest run of digits of the radix is the
  number; without a digit the result is \<open>NaN\<close>, here \<open>None\<close>.
\<close>

definition str_whitespace :: "char \<Rightarrow> bool" where
  "str_whitespace c =
     (c \<in> set [CHR 0x09, CHR 0x0A, CHR 0x0B, CHR 0x0C, CHR 0x0D, CHR '' '', CHR 0xA0])"

definition digit_value :: "char \<Rightarrow> nat option" where
  "digit_value c =
     map_of (zip ''0123456789abcdefABCDEF''
               [0, 1, 2, 3, 4, 5, 6, 7, 8, 9, 10, 11, 12, 13, 14, 15, 10, 11, 12, 13, 14, 15]) c"

fun leading_digits :: "nat \<Rightarrow> string \<Rightarrow> nat list" where
  "leading_digits radix [] = []"
| "leading_digits radix (c # cs) =
     (case digit_value c of
        None \<Rightarrow> []
      | Some d \<Rightarrow> if d < radix then d # leading_digits radix cs else [])"

definition parseInt :: "string \<Rightarrow> int option" where
  "parseInt input =
     (let s1 = dropWhile str_whitespace input;
          negative = (case s1 of [] \<Rightarrow> False | c # cs \<Rightarrow> c = CHR ''-'');
          s2 = (case s1 of
                  [] \<Rightarrow> []
                | c # cs \<Rightarrow> if c = CHR ''-'' \<or> c = CHR ''+'' then cs else s1);
          hex = (case s2 of
                   a # b # cs \<Rightarrow> a = CHR ''0'' \<and> (b = CHR ''x'' \<or> b = CHR ''X'')
                 | _ \<Rightarrow> False);
          radix = (if hex then 16 else 10);
          ds = leading_digits radix (if hex then drop 2 s2 else s2)
      in if ds = [] then None
         else Some ((if negative then - 1 else 1)
                      * int (foldl (\<lambda>a d. a * radix + d) 0 ds)))"

text \<open>
  The number that \<open>parseInt\<close> returns is a double. Up to \<open>2^53 - 1\<close> in magnitude it is the
  integer read; beyond that it is the nearest double, and from \<open>2^1024\<close> on it is not
  finite.
\<close>

definition parsed_number :: "int option \<Rightarrow> int option" where
  "parsed_number p =
     (case p of
        None \<Rightarrow> None
      | Some n \<Rightarrow>
          if \<bar>n\<bar> \<le> 9007199254740991 then Some n
          else if \<bar>n\<bar> < 2 ^ 1024 then Some \<lfloor>double_of (of_int n)\<rfloor>
          else None)"

text \<open>
  The body of \<open>POST /public\<close>. The identifier and the default status \<open>PENDING\<close> of the new
  row come from the datastore. The rating column holds integers: for a rating that
  \<open>parseInt\<close> turns into \<open>NaN\<close> or a number that is not finite the insert raises. The
  schema is not among the sources; every other number is taken to fit the column, and the
  properties below are stated for the numbers of 32 bits, which every integer column
  holds.
\<close>

record public_submission =
  sub_customerId :: "ident option"
  sub_businessId :: "ident option"
  sub_rating :: js_rating
  sub_feedback :: "string option"
  sub_formData :: "string option"

definition customer_findFirst :: "datastore \<Rightarrow> ident \<Rightarrow> ident \<Rightarrow> string + customer option" where
  "customer_findFirst db customerId businessId =
     (if fails db Customer_findFirst then Inl db_error
      else Inr (find (\<lambda>c. customer_id c = customerId \<and> customer_businessId c = businessId)
                  (customers db)))"

definition review_create :: "datastore \<Rightarrow> review \<Rightarrow> string + datastore" where
  "review_create db r =
     (if fails db Review_create then Inl db_error
      else Inr (db\<lparr>reviews := reviews db @ [r]\<rparr>))"

definition post_public_review ::
  "datastore \<Rightarrow> ident \<Rightarrow> public_submission \<Rightarrow> datetime \<Rightarrow> response \<times> datastore" where
  "post_public_review db new_id body now =
     (if \<not> truthy (sub_customerId body) \<or> \<not> truthy (sub_businessId body)
         \<or> \<not> rating_truthy (sub_rating body) then
        (reply 400 ''Customer ID, business ID, and rating are required'', db)
      else case (sub_customerId body, sub_businessId body) of
        (Some customerId, Some businessId) \<Rightarrow>
          (case customer_findFirst db customerId businessId of
             Inl e \<Rightarrow> (reply 500 ''Failed to create review'', db)
           | Inr None \<Rightarrow> (reply 404 ''Customer not found'', db)
           | Inr (Some c) \<Rightarrow>
               (case business_findUnique db businessId of
                  Inl e \<Rightarrow> (reply 500 ''Failed to create review'', db)
                | Inr None \<Rightarrow> (reply 404 ''Business not found'', db)
                | Inr (Some b) \<Rightarrow>
                    (case parsed_number (parseInt (rating_text (sub_rating body))) of
                       None \<Rightarrow> (reply 500 ''Failed to create review'', db)
                     | Some n \<Rightarrow>
                         (let r = \<lparr>review_id = new_id, review_businessId = businessId,
                                   review_customerId = customerId, rating = n,
                                   feedback = (if truthy (sub_feedback body)
                                               then (case sub_feedback body of
                                                       Some f \<Rightarrow> f | None \<Rightarrow> [])
                                               else []),
                                   formData = (case sub_formData body of
                                                 Some f \<Rightarrow> f | None \<Rightarrow> ''{}''),
                                   generatedReview = None, review_status = PENDING,
                                   review_createdAt = now\<rparr>
                          in case review_create db r of
                               Inl e \<Rightarrow> (reply 500 ''Failed to create review'', db)
                             | Inr db1 \<Rightarrow> ((reply 201 [])\<lparr>resp_review := Some r\<rparr>, db1)))))
      | _ \<Rightarrow> (reply 400 ''Customer ID, business ID, and rating are required'', db))"

section \<open>Subscriptions that differ in status and dates only\<close>

text \<open>
  \<open>restamp v db\<close> overwrites the status, the start and end dates and the cancellation
  date of every stored subscription with the values that \<open>v\<close> gives for its business, and
  keeps the plan identifiers and everything else.
\<close>

definition restamp_subscription ::
  "sub_status \<times> datetime \<times> datetime \<times> datetime option \<Rightarrow> subscription \<Rightarrow> subscription" where
  "restamp_subscription v s =
     s\<lparr>sub_status := fst v, startDate := fst (snd v), endDate := fst (snd (snd v)),
       cancelledAt := snd (snd (snd v))\<rparr>"

definition restamp ::
  "(business \<Rightarrow> sub_status \<times> datetime \<times> datetime \<times> datetime option) \<Rightarrow> datastore \<Rightarrow> datastore" where
  "restamp v db =
     db\<lparr>businesses :=
          map (\<lambda>b. b\<lparr>subscription := map_option (restamp_subscription (v b)) (subscription b)\<rparr>)
            (businesses db)\<rparr>"

section \<open>Example states\<close>

definition t0 :: datetime where
  "t0 = \<lparr>ym = 682, in_month = 172800000\<rparr>"

definition acme :: business where
  "acme = \<lparr>business_id = ''b1'', business_name = ''Acme Cafe'', business_type = ''Restaurant'',
            owner_email = ''owner@acme.test'', subscription = None\<rparr>"

definition db_empty :: datastore where
  "db_empty = \<lparr>businesses = [], customers = [], reviews = [], aiGenerations = [],
     subscriptionUsage = Map.empty, aiUsageAnalytics = [], qrCodes = [], qrScans = [],
     failing = []\<rparr>"

definition db_acme :: datastore where
  "db_acme = db_empty\<lparr>businesses := [acme]\<rparr>"

definition db_count_down :: datastore where
  "db_count_down = db_acme\<lparr>failing := [AIGen_count]\<rparr>"

definition db_lookup_down :: datastore where
  "db_lookup_down = db_acme\<lparr>failing := [Business_findUnique]\<rparr>"

definition premium_sub :: "sub_status \<Rightarrow> subscription" where
  "premium_sub st = \<lparr>planId = ''PREMIUM'', sub_status = st, startDate = \<lparr>ym = 670, in_month = 0\<rparr>,
      endDate = \<lparr>ym = 671, in_month = 0\<rparr>, cancelledAt = None\<rparr>"

definition mk_review :: "ident \<Rightarrow> datetime \<Rightarrow> review" where
  "mk_review rid t =
     \<lparr>review_id = rid, review_businessId = ''b1'', review_customerId = ''c1'', rating = 5,
      feedback = ''great coffee and friendly staff'', formData = ''{}'',
      generatedReview = None, review_status = PENDING, review_createdAt = t\<rparr>"

definition mk_generation :: "ident \<Rightarrow> datetime \<Rightarrow> ai_generation" where
  "mk_generation rid t =
     \<lparr>gen_reviewId = rid, originalText = ''great coffee and friendly staff'',
      enhancedText = ''I had great coffee here. The staff was friendly.'',
      confidence = 8106479329266892 / 2 ^ 53, sentiment = ''positive'', gen_keywords = [], improvements = [],
      gen_status = GEN_PENDING, rejectionNote = None, gen_createdAt = t\<rparr>"

definition five_ids :: "ident list" where
  "five_ids = [''r1'', ''r2'', ''r3'', ''r4'', ''r5'']"

definition db_used_up :: datastore where
  "db_used_up = db_acme
     \<lparr>reviews := map (\<lambda>i. (mk_review i t0)\<lparr>review_status := AI_GENERATED\<rparr>) five_ids,
      aiGenerations := map (\<lambda>i. mk_generation i t0) five_ids\<rparr>"

definition t_next :: datetime where
  "t_next = \<lparr>ym = 683, in_month = 5\<rparr>"

definition db_pending :: datastore where
  "db_pending = db_acme\<lparr>reviews := [mk_review ''r1'' t0]\<rparr>"

definition w_ok :: ai_world where
  "w_ok = \<lparr>validateReviewText = (\<lambda>t. \<lparr>isValid = True, errors = []\<rparr>),
           generateContent = Inr ''I had great coffee here. The staff was friendly.'',
           analysis_reply = Inl ''no analysis''\<rparr>"

definition req_owner :: request where
  "req_owner = \<lparr>body_businessId = None, params_businessId = None,
     user_email = Some ''owner@acme.test'', body_reviewId = Some ''r1'',
     params_reviewId = Some ''r1'', body_rejectionNote = None, req_businessId = None,
     req_subscriptionUsage = None\<rparr>"

definition db_premium :: "sub_status \<Rightarrow> datastore" where
  "db_premium st = db_empty\<lparr>businesses := [acme\<lparr>subscription := Some (premium_sub st)\<rparr>]\<rparr>"

definition req_passed :: request where
  "req_passed = req_owner\<lparr>req_businessId := Some ''b1''\<rparr>"

definition w_down :: ai_world where
  "w_down = w_ok\<lparr>generateContent := Inl ''fetch failed''\<rparr>"

definition w_blank :: ai_world where
  "w_blank = w_ok\<lparr>generateContent := Inr []\<rparr>"

definition acme_context :: business_context where
  "acme_context = \<lparr>ctx_businessId = ''b1'', ctx_businessName = ''Acme Cafe'',
     ctx_businessType = ''Restaurant''\<rparr>"

definition db_quiet :: datastore where
  "db_quiet = db_pending\<lparr>failing := [Usage_upsert]\<rparr>"

definition ai_key :: ledger_key where
  "ai_key = (''b1'', 682, ''ai_enhancement'')"

definition db_generated :: datastore where
  "db_generated = db_acme
     \<lparr>reviews := [(mk_review ''r1'' t0)
          \<lparr>generatedReview := Some ''I had great coffee here. The staff was friendly.'',
           review_status := AI_GENERATED\<rparr>],
      aiGenerations := [mk_generation ''r1'' t0]\<rparr>"

definition req_reject :: request where
  "req_reject = req_owner\<lparr>body_rejectionNote := Some ''too long''\<rparr>"

definition front_door :: qr_code where
  "front_door = \<lparr>qr_id = ''q1'', qr_businessId = ''b1'', scansCount = 0\<rparr>"

definition db_qr :: datastore where
  "db_qr = db_acme\<lparr>qrCodes := [front_door]\<rparr>"

definition db_qr_torn :: datastore where
  "db_qr_torn = db_qr\<lparr>failing := [QRCode_update]\<rparr>"

definition db_qr_closed :: datastore where
  "db_qr_closed = db_qr\<lparr>failing := [QRScan_create]\<rparr>"

definition a_scan :: scan_data where
  "a_scan = \<lparr>sd_ipAddress = Some ''203.0.113.7'', sd_userAgent = Some ''Mozilla/5.0'',
     sd_location = None\<rparr>"

definition walk_in :: customer where
  "walk_in = \<lparr>customer_id = ''c1'', customer_businessId = ''b1''\<rparr>"

definition db_shop :: datastore where
  "db_shop = db_acme\<lparr>customers := [walk_in]\<rparr>"

definition body_out_of_range :: public_submission where
  "body_out_of_range = \<lparr>sub_customerId = Some ''c1'', sub_businessId = Some ''b1'',
     sub_rating = RNumber ''7'', sub_feedback = None, sub_formData = None\<rparr>"

definition body_no_rating :: public_submission where
  "body_no_rating = body_out_of_range\<lparr>sub_rating := RUndefined\<rparr>"

definition db_forms :: datastore where
  "db_forms = db_acme\<lparr>subscriptionUsage := [(''b1'', 682, ''customFormFields'') \<mapsto> 3]\<rparr>"

definition db_used_up_count_down :: datastore where
  "db_used_up_count_down = db_used_up\<lparr>failing := [AIGen_count]\<rparr>"

definition body_fraction :: public_submission where
  "body_fraction = body_out_of_range\<lparr>sub_rating := RNumber ''4.7''\<rparr>"

definition body_huge :: public_submission where
  "body_huge = body_out_of_range\<lparr>sub_rating := RNumber ''1e+21''\<rparr>"

definition body_zero_text :: public_submission where
  "body_zero_text = body_out_of_range\<lparr>sub_rating := RString ''0''\<rparr>"

definition body_half :: public_submission where
  "body_half = body_out_of_range\<lparr>sub_rating := RNumber ''0.5''\<rparr>"

definition body_zero :: public_submission where
  "body_zero = body_out_of_range\<lparr>sub_rating := RNumber ''0''\<rparr>"

definition db_orphan :: datastore where
  "db_orphan = db_empty\<lparr>customers := [walk_in]\<rparr>"

section \<open>Properties of the plan catalog and the entitlement check\<close>

lemmas catalog_defs = getPlan_def plans_def toUpperCase_def upper_char_def lower_letters_def
  upper_letters_def FREE_def PREMIUM_def

lemmas example_defs = t0_def acme_def db_empty_def db_acme_def premium_sub_def mk_review_def
  mk_generation_def five_ids_def db_used_up_def t_next_def db_pending_def w_ok_def
  req_owner_def db_premium_def req_passed_def w_down_def w_blank_def acme_context_def
  db_quiet_def ai_key_def db_generated_def req_reject_def
  front_door_def db_qr_def a_scan_def walk_in_def db_shop_def body_out_of_range_def
  body_no_rating_def db_count_down_def db_lookup_down_def db_qr_torn_def db_qr_closed_def
  db_forms_def db_used_up_count_down_def body_fraction_def body_huge_def body_zero_text_def
  body_half_def body_zero_def db_orphan_def

lemmas check_defs = checkUsageLimit_def checkFeatureLimit_def business_findUnique_def fails_def
  current_usage_def aIReviewGeneration_count_def review_count_def gen_of_business_def
  month_start_def gte_def unable_to_verify_def

lemma getPlan_cases: "getPlan pid = FREE \<or> getPlan pid = PREMIUM"
  by (auto simp: getPlan_def plans_def split: option.splits if_splits)

lemma current_usage_count_fails:
  "(f = ''aiEnhancementsPerMonth'' \<and> fails db AIGen_count) \<or>
   (f = ''reviewsPerMonth'' \<and> fails db Review_count)
   \<Longrightarrow> current_usage db f bid now = 0"
  by (auto simp: current_usage_def aIReviewGeneration_count_def review_count_def)

lemma tracked_limit:
  "f = ''aiEnhancementsPerMonth'' \<or> f = ''reviewsPerMonth'' \<Longrightarrow>
   map_of (features (getPlan pid)) f = Some (Num (- 1)) \<or>
   (\<exists>n. 0 < n \<and> map_of (features (getPlan pid)) f = Some (Num n))"
  using getPlan_cases [of pid] by (auto simp: FREE_def PREMIUM_def)

lemma fail_open_on_count:
  assumes "(f = ''aiEnhancementsPerMonth'' \<and> fails db AIGen_count) \<or>
           (f = ''reviewsPerMonth'' \<and> fails db Review_count)"
  shows "allowed (checkFeatureLimit db pid f bid now) \<and>
         used (checkFeatureLimit db pid f bid now) = JNum 0"
proof -
  have u: "current_usage db f bid now = 0"
    using assms by (rule current_usage_count_fails)
  from assms have "f = ''aiEnhancementsPerMonth'' \<or> f = ''reviewsPerMonth''"
    by auto
  from tracked_limit [OF this, of pid] show ?thesis
    by (auto simp: checkFeatureLimit_def u)
qed

lemma lookup_error_denies:
  "fails db Business_findUnique \<Longrightarrow> checkUsageLimit db bid f now = unable_to_verify"
  by (simp add: checkUsageLimit_def business_findUnique_def)

lemma missing_business_is_free:
  "\<not> fails db Business_findUnique \<Longrightarrow>
   find (\<lambda>b. business_id b = bid) (businesses db) = None \<Longrightarrow>
   checkUsageLimit db bid f now = checkFeatureLimit db ''FREE'' f bid now"
  by (simp add: checkUsageLimit_def business_findUnique_def)

lemma checkUsageLimit_is_checkFeatureLimit:
  "\<not> fails db Business_findUnique \<Longrightarrow>
   \<exists>pid. checkUsageLimit db bid f now = checkFeatureLimit db pid f bid now"
  by (auto simp: checkUsageLimit_def business_findUnique_def split: option.splits)

text \<open>
  Counterexample to C1. The check fails open on two of the three failed lookups: with
  the usage count raising a datastore error, and with no business row for the id, a
  check of the AI-enhancement quota answers \<open>allowed = true\<close>.
\<close>

theorem checkUsageLimit_fails_open_counterexample:
  "fails db_count_down AIGen_count \<and>
   allowed (checkUsageLimit db_count_down ''b1''
              ''aiEnhancementsPerMonth'' t0) \<and>
   business_findUnique db_empty ''b1'' = Inr None \<and>
   allowed (checkUsageLimit db_empty ''b1'' ''aiEnhancementsPerMonth'' t0)"
  by (simp add: check_defs catalog_defs example_defs)

text \<open>
  C1 (amended). A datastore error in the business and subscription lookup resolves to
  \<open>allowed = false\<close> with the message \<open>Unable to verify subscription\<close>. A business that is
  not found is checked against the FREE plan, and a datastore error in the usage count of
  a counted feature is taken as a usage of 0, on which the check answers
  \<open>allowed = true\<close>.
\<close>

theorem checkUsageLimit_lookup_failure_outcomes:
  "(fails db Business_findUnique \<longrightarrow>
      checkUsageLimit db bid f now = unable_to_verify \<and>
      \<not> allowed (checkUsageLimit db bid f now) \<and>
      message (checkUsageLimit db bid f now) = JStr ''Unable to verify subscription'') \<and>
   (\<not> fails db Business_findUnique \<and>
    find (\<lambda>b. business_id b = bid) (businesses db) = None \<longrightarrow>
      checkUsageLimit db bid f now = checkFeatureLimit db ''FREE'' f bid now) \<and>
   (\<not> fails db Business_findUnique \<and>
    ((f = ''aiEnhancementsPerMonth'' \<and> fails db AIGen_count) \<or>
     (f = ''reviewsPerMonth'' \<and> fails db Review_count)) \<longrightarrow>
      allowed (checkUsageLimit db bid f now) \<and> used (checkUsageLimit db bid f now) = JNum 0)"
proof (intro conjI impI)
  assume a: "fails db Business_findUnique"
  show "checkUsageLimit db bid f now = unable_to_verify"
    using a by (rule lookup_error_denies)
  then show "\<not> allowed (checkUsageLimit db bid f now)"
    and "message (checkUsageLimit db bid f now) = JStr ''Unable to verify subscription''"
    by (simp_all add: unable_to_verify_def)
next
  assume "\<not> fails db Business_findUnique \<and>
    find (\<lambda>b. business_id b = bid) (businesses db) = None"
  then show "checkUsageLimit db bid f now = checkFeatureLimit db ''FREE'' f bid now"
    by (simp add: missing_business_is_free)
next
  assume a: "\<not> fails db Business_findUnique \<and>
    ((f = ''aiEnhancementsPerMonth'' \<and> fails db AIGen_count) \<or>
     (f = ''reviewsPerMonth'' \<and> fails db Review_count))"
  then obtain pid where p: "checkUsageLimit db bid f now = checkFeatureLimit db pid f bid now"
    using checkUsageLimit_is_checkFeatureLimit by blast
  from a fail_open_on_count [of f db pid bid now]
  show "allowed (checkUsageLimit db bid f now)"
    and "used (checkUsageLimit db bid f now) = JNum 0"
    by (simp_all add: p)
qed

theorem checkUsageLimit_lookup_failure_outcomes_witness:
  "fails db_lookup_down Business_findUnique \<and>
   checkUsageLimit db_lookup_down ''b1''
       ''aiEnhancementsPerMonth'' t0 = unable_to_verify \<and>
   \<not> fails db_empty Business_findUnique \<and>
   find (\<lambda>b. business_id b = ''b1'') (businesses db_empty) = None \<and>
   checkUsageLimit db_empty ''b1'' ''aiEnhancementsPerMonth'' t0
     = checkFeatureLimit db_empty ''FREE'' ''aiEnhancementsPerMonth'' ''b1'' t0 \<and>
   fails db_count_down AIGen_count \<and>
   used (checkUsageLimit db_count_down ''b1''
           ''aiEnhancementsPerMonth'' t0) = JNum 0"
  using
    checkUsageLimit_lookup_failure_outcomes
      [of db_lookup_down "''b1''" "''aiEnhancementsPerMonth''" t0]
    checkUsageLimit_lookup_failure_outcomes
      [of db_empty "''b1''" "''aiEnhancementsPerMonth''" t0]
    checkUsageLimit_lookup_failure_outcomes
      [of db_count_down "''b1''" "''aiEnhancementsPerMonth''" t0]
  by (simp add: fails_def example_defs)


lemma gte_month_start: "gte c (month_start now) = (ym now \<le> ym c)"
  by (auto simp: gte_def month_start_def)

lemma limit_unlimited:
  "map_of (features (getPlan pid)) f = Some (Num (- 1)) \<Longrightarrow>
   checkFeatureLimit db pid f bid now =
     \<lparr>allowed = True, limit = JStr ''unlimited'', used = JNum 0, remaining = JUndefined, message = JUndefined\<rparr>"
  by (simp add: checkFeatureLimit_def)

lemma limit_boolean:
  "map_of (features (getPlan pid)) f = Some (Flag b) \<Longrightarrow>
   checkFeatureLimit db pid f bid now =
     \<lparr>allowed = b, limit = JBool b, used = JNum 0, remaining = JUndefined, message = JUndefined\<rparr>"
  by (simp add: checkFeatureLimit_def)

lemma limit_numeric:
  "map_of (features (getPlan pid)) f = Some (Num n) \<Longrightarrow> n \<noteq> - 1 \<Longrightarrow>
   checkFeatureLimit db pid f bid now =
     \<lparr>allowed = (int (current_usage db f bid now) < n), limit = JNum n,
      used = JNum (int (current_usage db f bid now)),
      remaining = JNum (max 0 (n - int (current_usage db f bid now))), message = JUndefined\<rparr>"
  by (simp add: checkFeatureLimit_def Let_def)

lemma premium_plan_of: "toUpperCase pid = ''PREMIUM'' \<Longrightarrow> getPlan pid = PREMIUM"
  by (simp add: getPlan_def plans_def)

lemma premium_ai_unlimited:
  "toUpperCase pid = ''PREMIUM'' \<Longrightarrow> allowed (checkFeatureLimit db pid ''aiEnhancementsPerMonth'' bid now)"
  by (simp add: checkFeatureLimit_def premium_plan_of PREMIUM_def)

lemma current_usage_explicit:
  "current_usage db f bid now =
     (if f = ''aiEnhancementsPerMonth'' \<and> AIGen_count \<notin> set (failing db) then
        length (filter (\<lambda>g. list_ex (\<lambda>r. review_id r = gen_reviewId g \<and> review_businessId r = bid)
                               (reviews db)
                            \<and> ym now \<le> ym (gen_createdAt g)) (aiGenerations db))
      else if f = ''reviewsPerMonth'' \<and> Review_count \<notin> set (failing db) then
        length (filter (\<lambda>r. review_businessId r = bid \<and> ym now \<le> ym (review_createdAt r))
                  (reviews db))
      else 0)"
  by (simp add: current_usage_def aIReviewGeneration_count_def review_count_def fails_def
      gen_of_business_def gte_month_start)

lemma same_month_filter:
  assumes "list_all (\<lambda>x. ym (stamp x) \<le> ym now) xs"
  shows "filter (\<lambda>x. P x \<and> ym now \<le> ym (stamp x)) xs = filter (\<lambda>x. P x \<and> ym (stamp x) = ym now) xs"
  using assms by (intro filter_cong refl) (auto simp: list_all_iff)

lemma ledger_not_read:
  "checkFeatureLimit (db\<lparr>subscriptionUsage := m\<rparr>) pid f bid now = checkFeatureLimit db pid f bid now"
  by (simp add: checkFeatureLimit_def current_usage_def aIReviewGeneration_count_def
      review_count_def fails_def gen_of_business_def
      cong: option.case_cong feature_limit.case_cong if_cong)

lemma uncounted_feature:
  assumes "map_of (features (getPlan pid)) f = Some (Num n)" and "n \<noteq> - 1"
    and "f \<noteq> ''aiEnhancementsPerMonth''" and "f \<noteq> ''reviewsPerMonth''"
  shows "checkFeatureLimit db pid f bid now =
     \<lparr>allowed = (0 < n), limit = JNum n, used = JNum 0, remaining = JNum (max 0 n),
      message = JUndefined\<rparr>"
  using assms by (simp add: limit_numeric current_usage_explicit)

text \<open>
  Counterexample to C2. The spec reads \<open>used\<close> as the current month's usage count of the
  feature. For \<open>customFormFields\<close>, a numeric cap of 3 on the free plan, the ledger of the
  month holds 3, yet the check answers \<open>used = 0\<close>, \<open>remaining = 3\<close> and \<open>allowed = true\<close>:
  the \<open>switch\<close> has no case for the key. For \<open>aiEnhancementsPerMonth\<close> with five rows in
  the month and a count query that throws, the check answers \<open>used = 0\<close> and
  \<open>allowed = true\<close> as well.
\<close>

theorem checkFeatureLimit_used_not_ledger_counterexample:
  "map_of (features (getPlan ''FREE'')) ''customFormFields'' = Some (Num 3) \<and>
   spec_month_usage db_forms ''b1'' ''customFormFields'' t0 = 3 \<and>
   checkFeatureLimit db_forms ''FREE'' ''customFormFields'' ''b1'' t0
     = \<lparr>allowed = True, limit = JNum 3, used = JNum 0, remaining = JNum 3, message = JUndefined\<rparr> \<and>
   aiGenerations db_used_up_count_down = aiGenerations db_used_up \<and>
   reviews db_used_up_count_down = reviews db_used_up \<and>
   current_usage db_used_up ''aiEnhancementsPerMonth'' ''b1'' t0 = 5 \<and>
   checkFeatureLimit db_used_up_count_down ''FREE'' ''aiEnhancementsPerMonth'' ''b1'' t0
     = \<lparr>allowed = True, limit = JNum 5, used = JNum 0, remaining = JNum 5, message = JUndefined\<rparr>"
  by (simp add: spec_month_usage_def ledger_count_def check_defs catalog_defs example_defs)

text \<open>
  C2 (amended). For a feature key of the plan's feature map the check answers by the kind
  of the limit: the sentinel \<open>-1\<close> gives \<open>allowed = true\<close> and the limit \<open>unlimited\<close>; a
  boolean gives \<open>allowed\<close> equal to it, with no usage counted; a numeric cap \<open>n\<close> gives
  \<open>allowed = (used < n)\<close> and \<open>remaining = max(0, n - used)\<close>. Here \<open>used\<close> is, for
  \<open>aiEnhancementsPerMonth\<close>, the number of generation rows whose review belongs to the
  business and that were created in or after the month of \<open>now\<close>; for \<open>reviewsPerMonth\<close>
  the number of such review rows; and 0 for every other key and whenever the count query
  fails. When no row is dated after the month of \<open>now\<close>, these are the rows of the current
  calendar month. The usage ledger is never read: replacing it leaves the answer
  unchanged. A plan identifier that reads \<open>PREMIUM\<close> always gets \<open>allowed = true\<close> for AI
  enhancements, whatever usage is recorded.
\<close>

theorem checkFeatureLimit_by_limit_kind:
  "(map_of (features (getPlan pid)) f = Some (Num (- 1)) \<longrightarrow>
      allowed (checkFeatureLimit db pid f bid now) \<and>
      limit (checkFeatureLimit db pid f bid now) = JStr ''unlimited'') \<and>
   (map_of (features (getPlan pid)) f = Some (Flag b) \<longrightarrow>
      allowed (checkFeatureLimit db pid f bid now) = b \<and>
      used (checkFeatureLimit db pid f bid now) = JNum 0) \<and>
   (map_of (features (getPlan pid)) f = Some (Num n) \<and> n \<noteq> - 1 \<longrightarrow>
      allowed (checkFeatureLimit db pid f bid now) = (int (current_usage db f bid now) < n) \<and>
      remaining (checkFeatureLimit db pid f bid now)
        = JNum (max 0 (n - int (current_usage db f bid now))) \<and>
      used (checkFeatureLimit db pid f bid now) = JNum (int (current_usage db f bid now)) \<and>
      limit (checkFeatureLimit db pid f bid now) = JNum n) \<and>
   current_usage db f bid now =
     (if f = ''aiEnhancementsPerMonth'' \<and> AIGen_count \<notin> set (failing db) then
        length (filter (\<lambda>g. list_ex (\<lambda>r. review_id r = gen_reviewId g \<and> review_businessId r = bid)
                               (reviews db)
                            \<and> ym now \<le> ym (gen_createdAt g)) (aiGenerations db))
      else if f = ''reviewsPerMonth'' \<and> Review_count \<notin> set (failing db) then
        length (filter (\<lambda>r. review_businessId r = bid \<and> ym now \<le> ym (review_createdAt r))
                  (reviews db))
      else 0) \<and>
   (map_of (features (getPlan pid)) f = Some (Num n) \<and> n \<noteq> - 1
      \<and> f \<noteq> ''aiEnhancementsPerMonth'' \<and> f \<noteq> ''reviewsPerMonth'' \<longrightarrow>
      used (checkFeatureLimit db pid f bid now) = JNum 0 \<and>
      allowed (checkFeatureLimit db pid f bid now) = (0 < n)) \<and>
   checkFeatureLimit (db\<lparr>subscriptionUsage := m\<rparr>) pid f bid now
     = checkFeatureLimit db pid f bid now \<and>
   (AIGen_count \<notin> set (failing db)
      \<and> list_all (\<lambda>g. ym (gen_createdAt g) \<le> ym now) (aiGenerations db) \<longrightarrow>
      current_usage db ''aiEnhancementsPerMonth'' bid now =
        length (filter (\<lambda>g. list_ex (\<lambda>r. review_id r = gen_reviewId g \<and> review_businessId r = bid)
                               (reviews db)
                            \<and> ym (gen_createdAt g) = ym now) (aiGenerations db))) \<and>
   (Review_count \<notin> set (failing db)
      \<and> list_all (\<lambda>r. ym (review_createdAt r) \<le> ym now) (reviews db) \<longrightarrow>
      current_usage db ''reviewsPerMonth'' bid now =
        length (filter (\<lambda>r. review_businessId r = bid \<and> ym (review_createdAt r) = ym now)
                  (reviews db))) \<and>
   (toUpperCase pid = ''PREMIUM'' \<longrightarrow>
      allowed (checkFeatureLimit db pid ''aiEnhancementsPerMonth'' bid now))"
proof (intro conjI impI)
  assume "map_of (features (getPlan pid)) f = Some (Num (- 1))"
  from limit_unlimited [OF this, of db bid now]
  show "allowed (checkFeatureLimit db pid f bid now)"
    and "limit (checkFeatureLimit db pid f bid now) = JStr ''unlimited''" by simp_all
next
  assume "map_of (features (getPlan pid)) f = Some (Flag b)"
  from limit_boolean [OF this, of db bid now]
  show "allowed (checkFeatureLimit db pid f bid now) = b"
    and "used (checkFeatureLimit db pid f bid now) = JNum 0" by simp_all
next
  assume "map_of (features (getPlan pid)) f = Some (Num n) \<and> n \<noteq> - 1"
  then have r: "checkFeatureLimit db pid f bid now =
     \<lparr>allowed = (int (current_usage db f bid now) < n), limit = JNum n,
      used = JNum (int (current_usage db f bid now)),
      remaining = JNum (max 0 (n - int (current_usage db f bid now))), message = JUndefined\<rparr>"
    by (simp add: limit_numeric)
  show "allowed (checkFeatureLimit db pid f bid now) = (int (current_usage db f bid now) < n)"
    and "remaining (checkFeatureLimit db pid f bid now) = JNum (max 0 (n - int (current_usage db f bid now)))"
    and "used (checkFeatureLimit db pid f bid now) = JNum (int (current_usage db f bid now))"
    and "limit (checkFeatureLimit db pid f bid now) = JNum n"
    by (simp_all add: r)
next
  show "current_usage db f bid now =
     (if f = ''aiEnhancementsPerMonth'' \<and> AIGen_count \<notin> set (failing db) then
        length (filter (\<lambda>g. list_ex (\<lambda>r. review_id r = gen_reviewId g \<and> review_businessId r = bid)
                               (reviews db)
                            \<and> ym now \<le> ym (gen_createdAt g)) (aiGenerations db))
      else if f = ''reviewsPerMonth'' \<and> Review_count \<notin> set (failing db) then
        length (filter (\<lambda>r. review_businessId r = bid \<and> ym now \<le> ym (review_createdAt r))
                  (reviews db))
      else 0)"
    by (rule current_usage_explicit)
next
  assume "map_of (features (getPlan pid)) f = Some (Num n) \<and> n \<noteq> - 1
      \<and> f \<noteq> ''aiEnhancementsPerMonth'' \<and> f \<noteq> ''reviewsPerMonth''"
  then have "checkFeatureLimit db pid f bid now =
     \<lparr>allowed = (0 < n), limit = JNum n, used = JNum 0, remaining = JNum (max 0 n),
      message = JUndefined\<rparr>"
    using uncounted_feature [of pid f n db bid now] by blast
  then show "used (checkFeatureLimit db pid f bid now) = JNum 0"
    and "allowed (checkFeatureLimit db pid f bid now) = (0 < n)"
    by simp_all
next
  show "checkFeatureLimit (db\<lparr>subscriptionUsage := m\<rparr>) pid f bid now
     = checkFeatureLimit db pid f bid now"
    by (rule ledger_not_read)
next
  assume a: "AIGen_count \<notin> set (failing db)
      \<and> list_all (\<lambda>g. ym (gen_createdAt g) \<le> ym now) (aiGenerations db)"
  then have "list_all (\<lambda>g. ym (gen_createdAt g) \<le> ym now) (aiGenerations db)" by simp
  from same_month_filter [OF this] a
  show "current_usage db ''aiEnhancementsPerMonth'' bid now =
        length (filter (\<lambda>g. list_ex (\<lambda>r. review_id r = gen_reviewId g \<and> review_businessId r = bid)
                               (reviews db)
                            \<and> ym (gen_createdAt g) = ym now) (aiGenerations db))"
    by (simp add: current_usage_explicit)
next
  assume a: "Review_count \<notin> set (failing db)
      \<and> list_all (\<lambda>r. ym (review_createdAt r) \<le> ym now) (reviews db)"
  then have "list_all (\<lambda>r. ym (review_createdAt r) \<le> ym now) (reviews db)" by simp
  from same_month_filter [OF this] a
  show "current_usage db ''reviewsPerMonth'' bid now =
        length (filter (\<lambda>r. review_businessId r = bid \<and> ym (review_createdAt r) = ym now)
                  (reviews db))"
    by (simp add: current_usage_explicit)
next
  assume "toUpperCase pid = ''PREMIUM''"
  then show "allowed (checkFeatureLimit db pid ''aiEnhancementsPerMonth'' bid now)"
    by (rule premium_ai_unlimited)
qed

theorem checkFeatureLimit_by_limit_kind_witness:
  "map_of (features (getPlan ''PREMIUM'')) ''aiEnhancementsPerMonth'' = Some (Num (- 1)) \<and>
   toUpperCase ''PREMIUM'' = ''PREMIUM'' \<and>
   allowed (checkFeatureLimit db_used_up ''PREMIUM'' ''aiEnhancementsPerMonth'' ''b1'' t0) \<and>
   limit (checkFeatureLimit db_used_up ''PREMIUM'' ''aiEnhancementsPerMonth'' ''b1'' t0)
     = JStr ''unlimited'' \<and>
   map_of (features (getPlan ''FREE'')) ''emailSupport'' = Some (Flag False) \<and>
   \<not> allowed (checkFeatureLimit db_used_up ''FREE'' ''emailSupport'' ''b1'' t0) \<and>
   map_of (features (getPlan ''FREE'')) ''aiEnhancementsPerMonth'' = Some (Num 5) \<and>
   AIGen_count \<notin> set (failing db_used_up) \<and>
   list_all (\<lambda>g. ym (gen_createdAt g) \<le> ym t0) (aiGenerations db_used_up) \<and>
   current_usage db_used_up ''aiEnhancementsPerMonth'' ''b1'' t0 = 5 \<and>
   \<not> allowed (checkFeatureLimit db_used_up ''FREE'' ''aiEnhancementsPerMonth'' ''b1'' t0) \<and>
   remaining (checkFeatureLimit db_used_up ''FREE'' ''aiEnhancementsPerMonth'' ''b1'' t0) = JNum 0 \<and>
   Review_count \<notin> set (failing db_used_up) \<and>
   list_all (\<lambda>r. ym (review_createdAt r) \<le> ym t0) (reviews db_used_up) \<and>
   current_usage db_used_up ''reviewsPerMonth'' ''b1'' t0 = 5 \<and>
   map_of (features (getPlan ''FREE'')) ''multipleLocations'' = Some (Num 1) \<and>
   used (checkFeatureLimit db_used_up ''FREE'' ''multipleLocations'' ''b1'' t0) = JNum 0 \<and>
   allowed (checkFeatureLimit db_used_up ''FREE'' ''multipleLocations'' ''b1'' t0)"
  using
    checkFeatureLimit_by_limit_kind [of "''PREMIUM''" "''aiEnhancementsPerMonth''" db_used_up "''b1''" t0 False 5 Map.empty]
    checkFeatureLimit_by_limit_kind [of "''FREE''" "''emailSupport''" db_used_up "''b1''" t0 False 5 Map.empty]
    checkFeatureLimit_by_limit_kind [of "''FREE''" "''aiEnhancementsPerMonth''" db_used_up "''b1''" t0 False 5 Map.empty]
    checkFeatureLimit_by_limit_kind [of "''FREE''" "''multipleLocations''" db_used_up "''b1''" t0 False 1 Map.empty]
  by (simp add: catalog_defs example_defs)


lemma find_restamped:
  "find (\<lambda>b. business_id b = bid) (map (\<lambda>b. b\<lparr>subscription := h b\<rparr>) bs)
   = map_option (\<lambda>b. b\<lparr>subscription := h b\<rparr>) (find (\<lambda>b. business_id b = bid) bs)"
  by (induction bs) auto

lemma restamp_keeps_rows:
  "reviews (restamp v db) = reviews db" "aiGenerations (restamp v db) = aiGenerations db"
  "failing (restamp v db) = failing db"
  by (simp_all add: restamp_def)

lemma current_usage_restamp: "current_usage (restamp v db) f bid now = current_usage db f bid now"
  by (simp add: current_usage_def aIReviewGeneration_count_def review_count_def
      gen_of_business_def fails_def restamp_keeps_rows)

lemma checkFeatureLimit_restamp:
  "checkFeatureLimit (restamp v db) pid f bid now = checkFeatureLimit db pid f bid now"
  by (simp add: checkFeatureLimit_def current_usage_restamp
      cong: option.case_cong feature_limit.case_cong if_cong)

lemma planId_restamp: "planId (restamp_subscription x s) = planId s"
  by (simp add: restamp_subscription_def)

text \<open>
  C10. The result of \<open>checkUsageLimit\<close> is the same on two stores that differ only in
  the status, start date, end date and cancellation date of the stored subscriptions.
\<close>

theorem checkUsageLimit_ignores_subscription_status:
  "checkUsageLimit (restamp v db) bid f now = checkUsageLimit db bid f now"
proof -
  have fu: "business_findUnique (restamp v db) bid =
     map_sum id (map_option (\<lambda>b. b\<lparr>subscription := map_option (restamp_subscription (v b)) (subscription b)\<rparr>))
       (business_findUnique db bid)"
    by (simp add: business_findUnique_def fails_def restamp_def find_restamped)
  show ?thesis
    unfolding checkUsageLimit_def fu
    by (cases "business_findUnique db bid")
       (auto simp: checkFeatureLimit_restamp planId_restamp split: option.splits)
qed

theorem checkUsageLimit_ignores_subscription_status_witness:
  "map (\<lambda>b. map_option sub_status (subscription b))
     (businesses (restamp (\<lambda>b. (SUB_EXPIRED, t0, t0, Some t0)) (db_premium SUB_ACTIVE)))
     = [Some SUB_EXPIRED] \<and>
   checkUsageLimit (restamp (\<lambda>b. (SUB_EXPIRED, t0, t0, Some t0)) (db_premium SUB_ACTIVE))
       ''b1'' ''aiEnhancementsPerMonth'' t0
     = checkUsageLimit (db_premium SUB_ACTIVE) ''b1'' ''aiEnhancementsPerMonth'' t0 \<and>
   allowed (checkUsageLimit (db_premium SUB_ACTIVE) ''b1'' ''aiEnhancementsPerMonth'' t0)"
  using checkUsageLimit_ignores_subscription_status [of "\<lambda>b. (SUB_EXPIRED, t0, t0, Some t0)" "db_premium SUB_ACTIVE" "''b1''"
      "''aiEnhancementsPerMonth''" t0]
  by (simp add: restamp_def restamp_subscription_def db_premium_def premium_sub_def
      check_defs catalog_defs example_defs)

section \<open>The gate of the enhance-review route\<close>

lemma gate_key_absent: "map_of (features (getPlan pid)) ''ai_enhancement'' = None"
  using getPlan_cases [of pid] by (auto simp: FREE_def PREMIUM_def)

lemma gate_key_denied_feature: "\<not> allowed (checkFeatureLimit db pid ''ai_enhancement'' bid now)"
  by (simp add: checkFeatureLimit_def gate_key_absent)

lemma gate_key_denied: "\<not> allowed (checkUsageLimit db bid ''ai_enhancement'' now)"
  by (auto simp: checkUsageLimit_def gate_key_denied_feature unable_to_verify_def
      split: sum.splits option.splits)

lemma gate_never_passes: "checkSubscriptionLimit ''ai_enhancement'' db req now \<noteq> Next r"
  by (auto simp: checkSubscriptionLimit_def gate_key_denied Let_def
      split: sum.splits option.splits)

lemma enhance_review_route_blocked:
  "snd (post_enhance_review w db req now) = db \<and>
   status_code (fst (post_enhance_review w db req now)) \<in> {400, 403, 500}"
  by (auto simp: post_enhance_review_def checkSubscriptionLimit_def gate_key_denied Let_def reply_def
      split: sum.splits option.splits gate.splits)

lemma cap_reached:
  assumes "map_of (features (getPlan pid)) f = Some (Num n)" and "n \<noteq> - 1"
    and "int (current_usage db f bid now) = n"
  shows "checkFeatureLimit db pid f bid now =
     \<lparr>allowed = False, limit = JNum n, used = JNum n, remaining = JNum 0, message = JUndefined\<rparr>"
  using assms by (simp add: limit_numeric)

lemma earlier_months_not_counted:
  assumes "list_all (\<lambda>g. ym (gen_createdAt g) < ym now) (aiGenerations db)"
  shows "current_usage db ''aiEnhancementsPerMonth'' bid now = 0"
proof -
  have "filter (\<lambda>g. gen_of_business db bid g \<and> gte (gen_createdAt g) (month_start now)) (aiGenerations db) = []"
    using assms by (auto simp: filter_empty_conv list_all_iff gte_month_start)
  then show ?thesis
    by (simp add: current_usage_def aIReviewGeneration_count_def)
qed

lemma used_up_now:
  "checkUsageLimit db_used_up ''b1'' ''aiEnhancementsPerMonth'' t0 =
     \<lparr>allowed = False, limit = JNum 5, used = JNum 5, remaining = JNum 0, message = JUndefined\<rparr>"
  by (simp add: check_defs catalog_defs example_defs)

lemma used_up_next_month:
  "checkUsageLimit db_used_up ''b1'' ''aiEnhancementsPerMonth'' t_next =
     \<lparr>allowed = True, limit = JNum 5, used = JNum 0, remaining = JNum 5, message = JUndefined\<rparr>"
  by (simp add: check_defs catalog_defs example_defs)


text \<open>With the quota's own key the same request passes the gate.\<close>

lemma gate_with_quota_key_passes:
  "checkSubscriptionLimit ''aiEnhancementsPerMonth'' db_pending req_owner t0 =
     Next (req_owner\<lparr>req_businessId := Some ''b1'',
             req_subscriptionUsage := Some \<lparr>allowed = True, limit = JNum 5, used = JNum 0,
               remaining = JNum 5, message = JUndefined\<rparr>\<rparr>)"
  by (simp add: checkSubscriptionLimit_def resolve_businessId_def or_else_def truthy_def
      business_findFirst_def check_defs catalog_defs example_defs)


text \<open>
  C3, evaluated on a FREE-plan business that has one pending review and no AI generation
  at all. The check of the quota's own key \<open>aiEnhancementsPerMonth\<close> allows the
  enhancement (0 of 5 used), but the route asks for the key \<open>ai_enhancement\<close>, which no
  plan has: that check answers \<open>allowed = false\<close> with an undefined limit, and the route
  answers 403 before the handler runs.
\<close>

theorem enhance_review_gate_denies_unused_quota:
  "aiGenerations db_pending = [] \<and>
   checkUsageLimit db_pending ''b1'' ''aiEnhancementsPerMonth'' t0 =
     \<lparr>allowed = True, limit = JNum 5, used = JNum 0, remaining = JNum 5, message = JUndefined\<rparr> \<and>
   checkUsageLimit db_pending ''b1'' ''ai_enhancement'' t0 =
     \<lparr>allowed = False, limit = JUndefined, used = JNum 0, remaining = JNaN, message = JUndefined\<rparr> \<and>
   post_enhance_review w_ok db_pending req_owner t0 =
     ((reply 403 ''Usage limit reached for ai_enhancement'')
        \<lparr>resp_details := Some (JNum 0, JUndefined, ''Free'',
           ''Upgrade to Pro or Ultimate plan to continue using this feature.'')\<rparr>, db_pending)"
  by (simp add: post_enhance_review_def checkSubscriptionLimit_def resolve_businessId_def
      or_else_def truthy_def business_findFirst_def getSubscriptionAnalytics_def upgrade_message_def
      check_defs catalog_defs example_defs reply_def)


section \<open>Lists updated at the first match\<close>

lemma map_update_first:
  "(\<And>x. h (f x) = h x) \<Longrightarrow> map h (update_first P f xs) = map h xs"
  by (induction xs) auto

lemma find_update_first:
  "(\<And>x. P x \<Longrightarrow> P (f x)) \<Longrightarrow> find P (update_first P f xs) = map_option f (find P xs)"
  by (induction xs) auto

lemma find_update_first_other:
  "(\<And>x. Q (f x) = Q x) \<Longrightarrow> (\<And>x. P x \<Longrightarrow> \<not> Q x) \<Longrightarrow>
   find Q (update_first P f xs) = find Q xs"
  by (induction xs) auto

lemma length_update_first: "length (update_first P f xs) = length xs"
  by (induction xs) auto

lemma list_ex_update_first:
  "(\<And>x. Q (f x) = Q x) \<Longrightarrow> list_ex Q (update_first P f xs) = list_ex Q xs"
  by (induction xs) auto

section \<open>The usage ledger and the enhance-review handler\<close>

lemmas store_defs = aIReviewGeneration_create_def review_update_def aiService_recordUsage_def
  aIReviewGeneration_update_def fails_def






text \<open>
  A successful enhancement stores one generation row dated \<open>now\<close>, which the usage count
  of the business's month then includes.
\<close>

lemma enhance_try_success_shape:
  assumes "enhance_try w db rid original now = Inr (g, db2)"
  shows "aiGenerations db2 = aiGenerations db @ [g] \<and> gen_reviewId g = rid \<and>
         gen_createdAt g = now \<and> originalText g = original \<and> failing db2 = failing db \<and>
         reviews db2 = update_first (\<lambda>r. review_id r = rid)
            (\<lambda>r. r\<lparr>generatedReview := Some (enhancedText g), review_status := AI_GENERATED\<rparr>)
            (reviews db)"
  using assms
  by (auto simp: enhance_try_def Let_def store_defs split: if_splits sum.splits option.splits)

lemma enhanceReview_success_shape:
  assumes "enhanceReview w db rid original ctx now = (Inr g, db')"
  shows "aiGenerations db' = aiGenerations db @ [g] \<and> gen_reviewId g = rid \<and>
         gen_createdAt g = now \<and> originalText g = original \<and> failing db' = failing db \<and>
         reviews db' = update_first (\<lambda>r. review_id r = rid)
            (\<lambda>r. r\<lparr>generatedReview := Some (enhancedText g), review_status := AI_GENERATED\<rparr>)
            (reviews db)"
proof -
  from assms obtain db2 where t: "enhance_try w db rid original now = Inr (g, db2)"
    and d: "db' = aiService_recordUsage db2
             \<lparr>usage_businessId = ctx_businessId ctx, operation = ''REVIEW_ENHANCEMENT'',
              usage_success = True, errorMessage = None\<rparr>"
    by (auto simp: enhanceReview_def split: sum.splits prod.splits)
  from enhance_try_success_shape [OF t] d show ?thesis
    by (simp add: aiService_recordUsage_def)
qed

lemma successful_enhancement_is_counted:
  assumes "enhanceReview w db rid original ctx now = (Inr g, db')"
    and "\<not> fails db AIGen_count"
    and "list_ex (\<lambda>r. review_id r = rid \<and> review_businessId r = bid) (reviews db)"
  shows "current_usage db' ''aiEnhancementsPerMonth'' bid now
           = current_usage db ''aiEnhancementsPerMonth'' bid now + 1"
proof -
  note sh = enhanceReview_success_shape [OF assms(1)]
  have same: "gen_of_business db' bid x = gen_of_business db bid x" for x
    using sh by (simp add: gen_of_business_def list_ex_update_first)
  have new: "gen_of_business db bid g" "gte (gen_createdAt g) (month_start now)"
    using sh assms(3) by (simp_all add: gen_of_business_def gte_month_start)
  show ?thesis
    using sh assms(2) new
    by (simp add: current_usage_def aIReviewGeneration_count_def fails_def same)
qed




lemmas handler_defs = enhance_review_handler_def review_findFirst_def owned_by_def
  already_enhanced_def enhanceReview_def enhance_try_def analyzeReview_def recordUsage_def
  validation_failed_def reply_def truthy_def store_defs








section \<open>Failure of the generative call\<close>

lemma enhanceReview_no_fallback:
  "isValid (validateReviewText w original) \<Longrightarrow> generateContent w = Inl e \<Longrightarrow>
   fst (enhanceReview w db rid original ctx now) = Inl (''Failed to enhance review: '' @ e)"
  by (simp add: enhanceReview_def enhance_try_def)

lemma enhanceReview_keeps_blank_reply:
  "isValid (validateReviewText w original) \<Longrightarrow> generateContent w = Inr [] \<Longrightarrow>
   fst (enhanceReview w db rid original ctx now) = Inr g \<Longrightarrow> enhancedText g = []"
  by (auto simp: enhanceReview_def enhance_try_def Let_def split: sum.splits prod.splits)


text \<open>
  C5, evaluated on a review whose text passes validation. With the generative call
  failing in transport, \<open>enhanceReview\<close> throws \<open>Failed to enhance review: fetch failed\<close>
  and the enhance-review handler answers 500 with no enhanced text; with an empty reply
  it stores and returns the empty text. A local rewrite for a failed call exists only in
  the inner \<open>catch\<close> of the enhance-text route (userController.js, lines 1122 to 1137),
  which this method does not share.
\<close>

theorem enhanceReview_has_no_fallback:
  "isValid (validateReviewText w_down ''great coffee and friendly staff'') \<and>
   generateContent w_down = Inl ''fetch failed'' \<and>
   fst (enhanceReview w_down db_pending ''r1'' ''great coffee and friendly staff'' acme_context t0)
     = Inl ''Failed to enhance review: fetch failed'' \<and>
   fst (enhance_review_handler w_down db_pending req_passed t0)
     = reply 500 ''Failed to enhance review'' \<and>
   generateContent w_blank = Inr [] \<and>
   map_sum id enhancedText
     (fst (enhanceReview w_blank db_pending ''r1'' ''great coffee and friendly staff'' acme_context t0))
     = Inr []"
  by (simp add: handler_defs example_defs Let_def)

section \<open>Rejecting a generated review\<close>

lemma rejectReview_reviews:
  "reviews (snd (rejectReview db rid rnote)) = reviews db \<or>
   reviews (snd (rejectReview db rid rnote))
     = update_first (\<lambda>r. review_id r = rid) (\<lambda>r. r\<lparr>review_status := PENDING\<rparr>) (reviews db)"
  by (auto simp: rejectReview_def store_defs split: sum.splits option.splits prod.splits if_splits)

lemma rejectReview_keeps_feedback:
  "map feedback (reviews (snd (rejectReview db rid rnote))) = map feedback (reviews db) \<and>
   map rating (reviews (snd (rejectReview db rid rnote))) = map rating (reviews db) \<and>
   map review_id (reviews (snd (rejectReview db rid rnote))) = map review_id (reviews db)"
  using rejectReview_reviews [of db rid rnote]
  by (auto simp: map_update_first)

lemma rejectReview_success:
  assumes "\<not> fails db AIGen_update" and "\<not> fails db Review_update"
    and "find (\<lambda>g. gen_reviewId g = rid) (aiGenerations db) = Some g"
    and "find (\<lambda>r. review_id r = rid) (reviews db) = Some r"
  shows "rejectReview db rid rnote =
     (Inr (g\<lparr>gen_status := GEN_REJECTED,
              rejectionNote := (case rnote of None \<Rightarrow> rejectionNote g | Some n \<Rightarrow> Some n)\<rparr>),
      db\<lparr>aiGenerations := update_first (\<lambda>g. gen_reviewId g = rid)
             (\<lambda>g. g\<lparr>gen_status := GEN_REJECTED,
                     rejectionNote := (case rnote of None \<Rightarrow> rejectionNote g | Some n \<Rightarrow> Some n)\<rparr>)
             (aiGenerations db),
         reviews := update_first (\<lambda>r. review_id r = rid) (\<lambda>r. r\<lparr>review_status := PENDING\<rparr>)
             (reviews db)\<rparr>)"
  using assms by (simp add: rejectReview_def store_defs)

lemma rejectReview_postcondition:
  assumes "\<not> fails db AIGen_update" and "\<not> fails db Review_update"
    and "find (\<lambda>g. gen_reviewId g = rid) (aiGenerations db) = Some g"
    and "find (\<lambda>r. review_id r = rid) (reviews db) = Some r"
  shows "find (\<lambda>r. review_id r = rid) (reviews (snd (rejectReview db rid rnote)))
           = Some (r\<lparr>review_status := PENDING\<rparr>) \<and>
         map_option gen_status
           (find (\<lambda>g. gen_reviewId g = rid) (aiGenerations (snd (rejectReview db rid rnote))))
           = Some GEN_REJECTED \<and>
         \<not> already_enhanced
           (find (\<lambda>g. gen_reviewId g = rid) (aiGenerations (snd (rejectReview db rid rnote))))"
  using assms
  by (simp add: rejectReview_success find_update_first already_enhanced_def)

lemmas route_defs = post_enhance_review_def checkSubscriptionLimit_def resolve_businessId_def
  or_else_def business_findFirst_def getSubscriptionAnalytics_def upgrade_message_def
  post_reject_review_def rejectReview_def

text \<open>
  C8, evaluated on a review in state AI_GENERATED. The reject route sets the generation
  to REJECTED and the review to PENDING and keeps feedback and rating
  (\<open>rejectReview_postcondition\<close> and \<open>rejectReview_keeps_feedback\<close> for every store). The
  enhance-review request that follows is answered 403 by the gate of the route, whose
  feature key no plan has, and the rejected generation stays as it is.
\<close>

theorem reject_then_enhance_is_denied:
  "map review_status (reviews db_generated) = [AI_GENERATED] \<and>
   status_code (fst (post_reject_review db_generated req_reject)) = 200 \<and>
   map gen_status (aiGenerations (snd (post_reject_review db_generated req_reject)))
     = [GEN_REJECTED] \<and>
   map review_status (reviews (snd (post_reject_review db_generated req_reject))) = [PENDING] \<and>
   map feedback (reviews (snd (post_reject_review db_generated req_reject)))
     = map feedback (reviews db_generated) \<and>
   map rating (reviews (snd (post_reject_review db_generated req_reject)))
     = map rating (reviews db_generated) \<and>
   status_code (fst (post_enhance_review w_ok (snd (post_reject_review db_generated req_reject))
                       req_owner t0)) = 403 \<and>
   map gen_status (aiGenerations (snd (post_enhance_review w_ok
        (snd (post_reject_review db_generated req_reject)) req_owner t0))) = [GEN_REJECTED]"
  by (simp add: route_defs handler_defs check_defs catalog_defs example_defs Let_def)

section \<open>QR scan tracking\<close>

lemma trackScan_failing: "failing (snd (trackScan db q d)) = failing db"
  by (auto simp: trackScan_def Let_def split: option.splits)

lemma trackScan_success:
  assumes "trackScan db q d = (Inr (), db')"
  shows "scan_rows db' q = scan_rows db q + 1 \<and>
         (\<exists>c. scans_counter db q = Some c \<and> scans_counter db' q = Some (c + 1))"
  using assms
  by (auto simp: trackScan_def Let_def scan_rows_def scans_counter_def find_update_first
      split: if_splits option.splits)

lemma trackScan_other_code:
  assumes "q' \<noteq> q"
  shows "scan_rows (snd (trackScan db q d)) q' = scan_rows db q' \<and>
         scans_counter (snd (trackScan db q d)) q' = scans_counter db q'"
proof -
  have "find (\<lambda>x. qr_id x = q') (update_first (\<lambda>x. qr_id x = q)
          (\<lambda>x. x\<lparr>scansCount := scansCount x + 1\<rparr>) (qrCodes db))
        = find (\<lambda>x. qr_id x = q') (qrCodes db)"
    using assms by (intro find_update_first_other) auto
  then show ?thesis using assms
    by (auto simp: trackScan_def Let_def scan_rows_def scans_counter_def
        split: if_splits option.splits)
qed

lemma trackScan_ok:
  assumes "\<not> fails db QRScan_create" and "\<not> fails db QRCode_update"
    and "scans_counter db q = Some c"
  shows "fst (trackScan db q d) = Inr () \<and>
         scan_rows (snd (trackScan db q d)) q = scan_rows db q + 1 \<and>
         scans_counter (snd (trackScan db q d)) q = Some (c + 1)"
  using assms
  by (auto simp: trackScan_def Let_def scan_rows_def scans_counter_def find_update_first
      split: if_splits option.splits)

lemma trackScan_torn:
  assumes "\<not> fails db QRScan_create" and "fails db QRCode_update"
  shows "fst (trackScan db q d) = Inl ''Failed to track scan'' \<and>
         scan_rows (snd (trackScan db q d)) q = scan_rows db q + 1 \<and>
         scans_counter (snd (trackScan db q d)) q = scans_counter db q"
  using assms
  by (auto simp: trackScan_def Let_def scan_rows_def scans_counter_def)

lemma trackScan_nothing_written:
  assumes "fails db QRScan_create"
  shows "trackScan db q d = (Inl ''Failed to track scan'', db)"
  using assms by (simp add: trackScan_def)

lemma trackScans_ok:
  assumes "\<not> fails db QRScan_create" and "\<not> fails db QRCode_update"
    and "scans_counter db q = Some c"
  shows "scan_rows (trackScans db q ds) q = scan_rows db q + length ds \<and>
         scans_counter (trackScans db q ds) q = Some (c + length ds)"
  using assms
proof (induction ds arbitrary: db c)
  case Nil
  then show ?case by simp
next
  case (Cons d ds)
  let ?db1 = "snd (trackScan db q d)"
  from trackScan_ok [OF Cons.prems, of d]
  have s: "scan_rows ?db1 q = scan_rows db q + 1" "scans_counter ?db1 q = Some (c + 1)"
    by simp_all
  have f: "\<not> fails ?db1 QRScan_create" "\<not> fails ?db1 QRCode_update"
    using Cons.prems(1,2) by (simp_all add: fails_def trackScan_failing)
  from Cons.IH [OF f s(2)] s(1) show ?case by simp
qed

lemma run_scan:
  "trackScan db_qr ''q1'' a_scan =
     (Inr (), db_qr\<lparr>qrScans := [\<lparr>scan_qrCodeId = ''q1'', ipAddress = Some ''203.0.113.7'',
                        userAgent = Some ''Mozilla/5.0'', location = None\<rparr>],
                     qrCodes := [front_door\<lparr>scansCount := 1\<rparr>]\<rparr>)"
  by (simp add: trackScan_def fails_def example_defs Let_def)

text \<open>
  Counterexample to C7. The scan row is inserted, then the counter update raises a
  datastore error: the call fails, one scan row exists and the counter is still 0.
\<close>

theorem trackScan_torn_write_counterexample:
  "scans_counter db_qr_torn ''q1'' = Some 0 \<and>
   scan_rows db_qr_torn ''q1'' = 0 \<and>
   fst (trackScan db_qr_torn ''q1'' a_scan) = Inl ''Failed to track scan'' \<and>
   scan_rows (snd (trackScan db_qr_torn ''q1'' a_scan)) ''q1'' = 1 \<and>
   scans_counter (snd (trackScan db_qr_torn ''q1'' a_scan)) ''q1'' = Some 0"
  by (simp add: trackScan_def scan_rows_def scans_counter_def fails_def example_defs Let_def)

text \<open>
  C7 (amended). A call of \<open>trackScan\<close> that returns success has appended exactly one scan
  row for the code and incremented its \<open>scansCount\<close> by exactly one; when neither
  statement fails and the code exists, every call succeeds and after K calls in sequence
  the counter and the number of scan rows have both grown by K. The two writes are not one
  unit: when the counter update fails after the insert, the call fails and leaves the scan
  row without an increment. When the insert fails nothing is written.
\<close>

theorem trackScan_effects:
  "(trackScan db q d = (Inr (), db') \<longrightarrow>
      scan_rows db' q = scan_rows db q + 1 \<and>
      (\<exists>c. scans_counter db q = Some c \<and> scans_counter db' q = Some (c + 1))) \<and>
   (\<not> fails db QRScan_create \<and> \<not> fails db QRCode_update \<and> scans_counter db q = Some c \<longrightarrow>
      fst (trackScan db q d) = Inr () \<and>
      scan_rows (trackScans db q ds) q = scan_rows db q + length ds \<and>
      scans_counter (trackScans db q ds) q = Some (c + length ds)) \<and>
   (\<not> fails db QRScan_create \<and> fails db QRCode_update \<longrightarrow>
      fst (trackScan db q d) = Inl ''Failed to track scan'' \<and>
      scan_rows (snd (trackScan db q d)) q = scan_rows db q + 1 \<and>
      scans_counter (snd (trackScan db q d)) q = scans_counter db q) \<and>
   (fails db QRScan_create \<longrightarrow> trackScan db q d = (Inl ''Failed to track scan'', db))"
proof (intro conjI impI)
  assume "trackScan db q d = (Inr (), db')"
  from trackScan_success [OF this]
  show "scan_rows db' q = scan_rows db q + 1"
    and "\<exists>c. scans_counter db q = Some c \<and> scans_counter db' q = Some (c + 1)"
    by simp_all
next
  assume a: "\<not> fails db QRScan_create \<and> \<not> fails db QRCode_update \<and> scans_counter db q = Some c"
  then show "fst (trackScan db q d) = Inr ()"
    using trackScan_ok [of db q c d] by simp
  from a show "scan_rows (trackScans db q ds) q = scan_rows db q + length ds"
    and "scans_counter (trackScans db q ds) q = Some (c + length ds)"
    using trackScans_ok [of db q c ds] by simp_all
next
  assume a: "\<not> fails db QRScan_create \<and> fails db QRCode_update"
  then show "fst (trackScan db q d) = Inl ''Failed to track scan''"
    and "scan_rows (snd (trackScan db q d)) q = scan_rows db q + 1"
    and "scans_counter (snd (trackScan db q d)) q = scans_counter db q"
    using trackScan_torn [of db q d] by simp_all
next
  assume "fails db QRScan_create"
  then show "trackScan db q d = (Inl ''Failed to track scan'', db)"
    by (rule trackScan_nothing_written)
qed

theorem trackScan_effects_witness:
  "fst (trackScan db_qr ''q1'' a_scan) = Inr () \<and>
   scan_rows (snd (trackScan db_qr ''q1'' a_scan)) ''q1'' = Suc (scan_rows db_qr ''q1'') \<and>
   \<not> fails db_qr QRScan_create \<and> \<not> fails db_qr QRCode_update \<and>
   scans_counter db_qr ''q1'' = Some 0 \<and>
   scans_counter (trackScans db_qr ''q1'' [a_scan, a_scan, a_scan]) ''q1'' = Some 3 \<and>
   scan_rows (trackScans db_qr ''q1'' [a_scan, a_scan, a_scan]) ''q1'' = 3 \<and>
   fails db_qr_torn QRCode_update \<and>
   scans_counter (snd (trackScan db_qr_torn ''q1'' a_scan)) ''q1'' = Some 0 \<and>
   fails db_qr_closed QRScan_create \<and>
   scan_rows (snd (trackScan db_qr_closed ''q1'' a_scan)) ''q1'' = 0"
  using
    trackScan_effects [of db_qr "''q1''" a_scan "snd (trackScan db_qr ''q1'' a_scan)" 0 "[a_scan, a_scan, a_scan]"]
    trackScan_effects [of db_qr_torn "''q1''" a_scan db_qr 0 "[]"]
    trackScan_effects [of db_qr_closed "''q1''" a_scan db_qr 0 "[]"]
    run_scan
  by (simp add: trackScan_def Let_def fails_def scans_counter_def scan_rows_def example_defs)

section \<open>Public review submission\<close>

lemmas parse_defs = parseInt_def parsed_number_def rating_text_def rating_truthy_def
  str_whitespace_def digit_value_def

lemmas public_defs = post_public_review_def truthy_def customer_findFirst_def
  business_findUnique_def review_create_def fails_def reply_def parse_defs

lemma parseInt_examples:
  "parseInt ''7'' = Some 7 \<and> parseInt ''4.7'' = Some 4 \<and> parseInt ''1e+21'' = Some 1 \<and>
   parseInt ''0.5'' = Some 0 \<and> parseInt ''-3'' = Some (- 3) \<and> parseInt '' 42px'' = Some 42 \<and>
   parseInt ''0x1F'' = Some 31 \<and> parseInt ''five'' = None \<and> parseInt ''true'' = None"
  by (simp add: parse_defs)






lemma public_more_runs:
  "map rating (reviews (snd (post_public_review db_shop ''r9'' body_huge t0))) = [1] \<and>
   map rating (reviews (snd (post_public_review db_shop ''r9'' body_half t0))) = [0] \<and>
   post_public_review db_shop ''r9'' body_zero t0
     = (reply 400 ''Customer ID, business ID, and rating are required'', db_shop)"
  by (simp add: public_defs example_defs Let_def)





section \<open>Confidence score\<close>

lemma significand_scaled:
  "2 ^ 52 \<le> q * 2 ^ j \<Longrightarrow> q * 2 ^ j < 2 ^ 53 \<Longrightarrow> j \<le> n \<Longrightarrow>
   significand n q k = (q * 2 ^ j, k + int j)"
proof (induction j arbitrary: q n k)
  case 0
  then show ?case by (cases n) auto
next
  case (Suc j)
  from Suc.prems(3) obtain n' where n: "n = Suc n'" "j \<le> n'" by (cases n) auto
  have "q * 2 ^ Suc j < 2 ^ 53" by (rule Suc.prems(2))
  moreover have "(2::rat) \<le> 2 ^ Suc j" by simp
  moreover have "0 < q"
  proof -
    have "(0::rat) < 2 ^ 52" by simp
    then have "0 < q * 2 ^ Suc j" using Suc.prems(1) by (rule less_le_trans)
    then show ?thesis by (simp add: zero_less_mult_iff)
  qed
  ultimately have "q * 2 < 2 ^ 53"
    by (smt (verit) mult_left_mono less_eq_rat_def order_le_less_trans)
  then have lt: "q < 2 ^ 52" by simp
  have "significand n' (2 * q) (k + 1) = (2 * q * 2 ^ j, k + 1 + int j)"
    using Suc.prems(1,2) n(2) by (intro Suc.IH) (simp_all add: mult.assoc mult.left_commute)
  then show ?case using lt n(1) by (simp add: mult.assoc mult.left_commute)
qed

lemma double_of_scaled:
  assumes "0 < q" and "2 ^ 52 \<le> q * 2 ^ j" and "q * 2 ^ j < 2 ^ 53" and "j \<le> 2200"
  shows "double_of q = of_int (round_half_even (q * 2 ^ j)) / 2 ^ j"
  using assms significand_scaled [of q j 2200 0]
  by (simp add: double_of_def)

lemma double_0_7: "double_of (7 / 10) = 6305039478318694 / 2 ^ 53"
proof -
  have "double_of (7 / 10) = of_int (round_half_even (7 / 10 * 2 ^ 53)) / 2 ^ 53"
    by (rule double_of_scaled) simp_all
  also have "\<dots> = 6305039478318694 / 2 ^ 53" by code_simp
  finally show ?thesis .
qed

lemma double_0_1: "double_of (1 / 10) = 7205759403792794 / 2 ^ 56"
proof -
  have "double_of (1 / 10) = of_int (round_half_even (1 / 10 * 2 ^ 56)) / 2 ^ 56"
    by (rule double_of_scaled) simp_all
  also have "\<dots> = 7205759403792794 / 2 ^ 56" by code_simp
  finally show ?thesis .
qed

lemma double_1: "double_of 1 = 1"
proof -
  have "double_of 1 = of_int (round_half_even (1 * 2 ^ 52)) / 2 ^ 52"
    by (rule double_of_scaled) simp_all
  also have "\<dots> = 1" by code_simp
  finally show ?thesis .
qed

lemma sum_one_bonus:
  "fl_add (6305039478318694 / 2 ^ 53) (7205759403792794 / 2 ^ 56) = 7205759403792793 / 2 ^ 53"
proof -
  have "double_of (6305039478318694 / 2 ^ 53 + 7205759403792794 / 2 ^ 56)
      = of_int (round_half_even
          ((6305039478318694 / 2 ^ 53 + 7205759403792794 / 2 ^ 56) * 2 ^ 53)) / 2 ^ 53"
    by (rule double_of_scaled) simp_all
  also have "\<dots> = 7205759403792793 / 2 ^ 53" by code_simp
  finally show ?thesis by (simp only: fl_add_def)
qed

lemma sum_two_bonuses:
  "fl_add (7205759403792793 / 2 ^ 53) (7205759403792794 / 2 ^ 56) = 8106479329266892 / 2 ^ 53"
proof -
  have "double_of (7205759403792793 / 2 ^ 53 + 7205759403792794 / 2 ^ 56)
      = of_int (round_half_even
          ((7205759403792793 / 2 ^ 53 + 7205759403792794 / 2 ^ 56) * 2 ^ 53)) / 2 ^ 53"
    by (rule double_of_scaled) simp_all
  also have "\<dots> = 8106479329266892 / 2 ^ 53" by code_simp
  finally show ?thesis by (simp only: fl_add_def)
qed

lemma score_table:
  fixes A B :: bool
  shows "min (if B then fl_add (if A then fl_add (double_of (7 / 10)) (double_of (1 / 10))
                                 else double_of (7 / 10)) (double_of (1 / 10))
              else (if A then fl_add (double_of (7 / 10)) (double_of (1 / 10))
                    else double_of (7 / 10)))
             (double_of 1)
         = (if A then (if B then 8106479329266892 / 2 ^ 53 else 7205759403792793 / 2 ^ 53)
            else (if B then 7205759403792793 / 2 ^ 53 else 6305039478318694 / 2 ^ 53))"
proof -
  have m: "min (6305039478318694 / 2 ^ 53) (1::rat) = 6305039478318694 / 2 ^ 53"
    "min (7205759403792793 / 2 ^ 53) (1::rat) = 7205759403792793 / 2 ^ 53"
    "min (8106479329266892 / 2 ^ 53) (1::rat) = 8106479329266892 / 2 ^ 53"
    by simp_all
  show ?thesis
    by (cases A; cases B)
       (simp_all only: if_True if_False double_0_7 double_0_1 double_1 sum_one_bonus
          sum_two_bonuses m)
qed

lemma confidence_cases:
  "calculateConfidence original enhanced =
     (if split_length original < split_length enhanced
         \<and> split_length enhanced \<le> split_length original * 2
      then (if capitalized_and_punctuated enhanced
            then 8106479329266892 / 2 ^ 53 else 7205759403792793 / 2 ^ 53)
      else (if capitalized_and_punctuated enhanced
            then 7205759403792793 / 2 ^ 53 else 6305039478318694 / 2 ^ 53))"
  by (simp only: calculateConfidence_def Let_def score_table)

lemma spec_confidence_cases:
  "spec_confidence original enhanced =
     (if split_length original \<le> split_length enhanced
         \<and> split_length enhanced \<le> 2 * split_length original
      then (if capitalized_and_punctuated enhanced
            then 8106479329266892 / 2 ^ 53 else 7205759403792793 / 2 ^ 53)
      else (if capitalized_and_punctuated enhanced
            then 7205759403792793 / 2 ^ 53 else 6305039478318694 / 2 ^ 53))"
  by (simp only: spec_confidence_def Let_def score_table)

lemma unfold_words: "split_length s = length (filter (\<lambda>c. c = CHR '' '') s) + 1"
  by (simp add: split_length_def)

lemma unfold_capitalized:
  "capitalized_and_punctuated enhanced =
     (CHR ''.'' \<in> set enhanced \<and>
      (of_char (hd enhanced) :: nat) \<notin> {97..122} \<union> {181, 223} \<union> {224..246} \<union> {248..255})"
  by (cases enhanced) (auto simp: capitalized_and_punctuated_def changed_by_toUpperCase_def Let_def)

lemma first_letter_examples:
  "capitalized_and_punctuated ''Great food.'' \<and> \<not> capitalized_and_punctuated ''great food.'' \<and>
   \<not> capitalized_and_punctuated (CHR 0xE9 # ''tait bon.'') \<and> capitalized_and_punctuated ''5 stars.''"
  by (simp add: capitalized_and_punctuated_def changed_by_toUpperCase_def)

text \<open>
  Counterexample to C9. An enhanced text with exactly as many words as the original is
  within once to twice its length, yet gets no length bonus: the score is the double 0.7
  where the claim's reading gives the double 0.7999999999999999.
\<close>

theorem calculateConfidence_equal_length_counterexample:
  "split_length ''Good food'' = split_length ''good food'' \<and>
   calculateConfidence ''good food'' ''Good food'' = 6305039478318694 / 2 ^ 53 \<and>
   spec_confidence ''good food'' ''Good food'' = 7205759403792793 / 2 ^ 53"
  by (simp add: confidence_cases spec_confidence_cases split_length_def
      capitalized_and_punctuated_def)

text \<open>
  C9 (amended). The confidence starts at 0.7, gains 0.1 if the enhanced text has strictly
  more space-separated words than the original and at most twice as many, and gains 0.1
  if the enhanced text contains a full stop and its first code unit is unchanged by
  upper-casing. Computed in doubles, the score is \<open>6305039478318694 / 2^53\<close> (0.7) with no
  bonus, \<open>7205759403792793 / 2^53\<close> (0.7999999999999999) with one and
  \<open>8106479329266892 / 2^53\<close> (0.8999999999999999) with both: within \<open>10^-15\<close> of 0.7, 0.8
  and 0.9, so the cap at 1.0 never binds and the score lies in [0, 1].
\<close>

theorem calculateConfidence_value_and_range:
  "calculateConfidence original enhanced =
     (if length (filter (\<lambda>c. c = CHR '' '') original) < length (filter (\<lambda>c. c = CHR '' '') enhanced)
         \<and> length (filter (\<lambda>c. c = CHR '' '') enhanced) + 1
             \<le> 2 * (length (filter (\<lambda>c. c = CHR '' '') original) + 1)
      then (if CHR ''.'' \<in> set enhanced \<and>
               (of_char (hd enhanced) :: nat)
                 \<notin> {97..122} \<union> {181, 223} \<union> {224..246} \<union> {248..255}
            then 8106479329266892 / 2 ^ 53 else 7205759403792793 / 2 ^ 53)
      else (if CHR ''.'' \<in> set enhanced \<and>
               (of_char (hd enhanced) :: nat)
                 \<notin> {97..122} \<union> {181, 223} \<union> {224..246} \<union> {248..255}
            then 7205759403792793 / 2 ^ 53 else 6305039478318694 / 2 ^ 53)) \<and>
   0 \<le> calculateConfidence original enhanced \<and>
   calculateConfidence original enhanced \<le> 1 \<and>
   \<bar>calculateConfidence original enhanced
      - (7 / 10
         + (if split_length original < split_length enhanced
               \<and> split_length enhanced \<le> split_length original * 2 then 1 / 10 else 0)
         + (if capitalized_and_punctuated enhanced then 1 / 10 else 0))\<bar> < 1 / 10 ^ 15"
proof (intro conjI)
  show "calculateConfidence original enhanced =
     (if length (filter (\<lambda>c. c = CHR '' '') original) < length (filter (\<lambda>c. c = CHR '' '') enhanced)
         \<and> length (filter (\<lambda>c. c = CHR '' '') enhanced) + 1
             \<le> 2 * (length (filter (\<lambda>c. c = CHR '' '') original) + 1)
      then (if CHR ''.'' \<in> set enhanced \<and>
               (of_char (hd enhanced) :: nat)
                 \<notin> {97..122} \<union> {181, 223} \<union> {224..246} \<union> {248..255}
            then 8106479329266892 / 2 ^ 53 else 7205759403792793 / 2 ^ 53)
      else (if CHR ''.'' \<in> set enhanced \<and>
               (of_char (hd enhanced) :: nat)
                 \<notin> {97..122} \<union> {181, 223} \<union> {224..246} \<union> {248..255}
            then 7205759403792793 / 2 ^ 53 else 6305039478318694 / 2 ^ 53))"
    unfolding confidence_cases unfold_capitalized unfold_words by (simp add: mult.commute)
  show "0 \<le> calculateConfidence original enhanced"
    by (simp add: confidence_cases)
  show "calculateConfidence original enhanced \<le> 1"
    by (simp add: confidence_cases)
  show "\<bar>calculateConfidence original enhanced
      - (7 / 10
         + (if split_length original < split_length enhanced
               \<and> split_length enhanced \<le> split_length original * 2 then 1 / 10 else 0)
         + (if capitalized_and_punctuated enhanced then 1 / 10 else 0))\<bar> < 1 / 10 ^ 15"
    by (simp add: confidence_cases)
qed


end
